theory Spec2Isabelle
  imports Complex_Main
begin

section \<open>Shared environment: errors, library functions, the world of one service\<close>

text \<open>
  Every rejected promise of the TypeScript sources is a value of \<open>error\<close>:
  \<^item> \<open>StoreUnavailable\<close>: \<open>pool.query\<close> rejects (the PostgreSQL pool is down);
  \<^item> \<open>DatabaseError\<close>: the database rejects a statement (a parameter that is not of
    the column's type, a violated constraint);
  \<^item> \<open>BusUnavailable\<close>: \<open>producer.send\<close> rejects;
  \<^item> \<open>SyntaxError\<close>: \<open>JSON.parse\<close> throws on the message value;
  \<^item> \<open>ZodError\<close>: a schema's \<open>parse\<close> throws;
  \<^item> \<open>TypeError\<close>: a property read on \<open>undefined\<close> (\<open>mapRowTo...\<close> on a missing row);
  \<^item> \<open>AppError msg\<close>: \<open>throw new Error(msg)\<close>.
\<close>

datatype error =
  StoreUnavailable | DatabaseError | BusUnavailable | SyntaxError | ZodError | TypeError
  | AppError string

datatype level = Info | Err

text \<open>
  Library functions the sources call and the repository does not define: zod's
  \<open>.uuid()\<close> and \<open>.datetime()\<close> string formats, \<open>Date.prototype.toISOString\<close>, the
  calendar day of an instant in the server's time zone (\<open>setHours(0, 0, 0, 0)\<close>
  stored in a DATE column), and PostgreSQL's reading of a text parameter for a UUID
  column: \<open>pg_uuid\<close> gives the text in which the database stores and returns the
  value (lower case, hyphenated), or \<open>None\<close> when the text is no UUID and the statement
  is rejected. They are parameters of the model.
\<close>

record lib =
  is_uuid :: "string \<Rightarrow> bool"
  is_datetime :: "string \<Rightarrow> bool"
  pg_uuid :: "string \<Rightarrow> string option"
  toISOString :: "nat \<Rightarrow> string"
  dayOf :: "nat \<Rightarrow> nat"

text \<open>
  A parameter that a UUID column accepts, and the form in which the column holds it
  (read only for accepted parameters). A nullable column accepts an absent value.
\<close>

definition pg_valid :: "lib \<Rightarrow> string \<Rightarrow> bool" where
  "pg_valid L s = (pg_uuid L s \<noteq> None)"

definition canon :: "lib \<Rightarrow> string \<Rightarrow> string" where
  "canon L s = (case pg_uuid L s of None \<Rightarrow> s | Some c \<Rightarrow> c)"

definition pg_valid_opt :: "lib \<Rightarrow> string option \<Rightarrow> bool" where
  "pg_valid_opt L v = (case v of None \<Rightarrow> True | Some s \<Rightarrow> pg_valid L s)"

definition canon_opt :: "lib \<Rightarrow> string option \<Rightarrow> string option" where
  "canon_opt L v = (case v of None \<Rightarrow> None | Some s \<Rightarrow> Some (canon L s))"

text \<open>
  Values the sources draw from their environment during one call:
  \<open>CURRENT_TIMESTAMP\<close> / \<open>new Date()\<close> (\<open>clock\<close>), \<open>gen_random_uuid()\<close> for a new
  row (\<open>row_id\<close>), \<open>crypto.randomUUID()\<close> for a new event (\<open>event_id\<close>) and for
  \<open>getCorrelationId()\<close> (\<open>corr_id\<close>).
\<close>

record env =
  clock :: nat
  row_id :: string
  event_id :: string
  corr_id :: string

subsection \<open>Domain events (packages/events)\<close>

text \<open>
  The \<open>data\<close> object of an event, by shape. \<open>OtherData\<close> is any object that has none
  of the shapes below. A JSON number (\<open>z.number()\<close>) is a rational.
\<close>

datatype event_data =
    OrganizationDeletedData string string string
      \<comment> \<open>organizationId, deletedBy, deletedAt\<close>
  | MemberAddedData string string string string string
      \<comment> \<open>organizationId, userId, role, addedBy, addedAt\<close>
  | MemberRemovedData string string string string
      \<comment> \<open>organizationId, userId, removedBy, removedAt\<close>
  | RoleChangedData string string string string string string
      \<comment> \<open>organizationId, userId, oldRole, newRole, changedBy, changedAt\<close>
  | EntitlementsUpdatedData string rat rat rat "string list" string
      \<comment> \<open>organizationId, maxProjects, maxTasks, maxMembers, features, updatedAt\<close>
  | ProjectCreatedData string string string string string
      \<comment> \<open>organizationId, projectId, name, createdBy, createdAt\<close>
  | TaskCreatedData string string string string string string
      \<comment> \<open>organizationId, projectId, taskId, title, createdBy, createdAt\<close>
  | OtherData

record event =
  eventId :: string
  eventType :: string
  eventVersion :: string
  timestamp :: string
  source :: string
  correlationId :: string
  traceId :: "string option"
  userId :: "string option"
  organizationId :: "string option"
  data :: event_data

text \<open>\<open>createEvent\<close>: a fresh \<open>eventId\<close> and the current time around the given data.\<close>

definition createEvent ::
  "lib \<Rightarrow> env \<Rightarrow> string \<Rightarrow> string \<Rightarrow> event_data \<Rightarrow> string \<Rightarrow> string \<Rightarrow>
   string option \<Rightarrow> string option \<Rightarrow> event" where
  "createEvent L e etype eversion d src corr uid oid =
     \<lparr>eventId = event_id e, eventType = etype, eventVersion = eversion,
      timestamp = toISOString L (clock e), source = src, correlationId = corr,
      traceId = None, userId = uid, organizationId = oid, data = d\<rparr>"

text \<open>An optional field passes \<open>z.string().uuid().optional()\<close> when absent or a UUID.\<close>

definition opt_uuid :: "lib \<Rightarrow> string option \<Rightarrow> bool" where
  "opt_uuid L v = (case v of None \<Rightarrow> True | Some s \<Rightarrow> is_uuid L s)"

definition BaseEventSchema :: "lib \<Rightarrow> event \<Rightarrow> bool" where
  "BaseEventSchema L ev =
     (is_uuid L (eventId ev) \<and> is_datetime L (timestamp ev) \<and>
      is_uuid L (correlationId ev) \<and> opt_uuid L (traceId ev) \<and>
      opt_uuid L (userId ev) \<and> opt_uuid L (organizationId ev))"

text \<open>
  Each \<open>XEventSchema.parse\<close> returns the validated event or throws \<open>ZodError\<close>. The
  model returns whether it accepts; the handlers then read the fields of \<open>data\<close>.
\<close>

definition OrganizationDeletedEventSchema :: "lib \<Rightarrow> event \<Rightarrow> bool" where
  "OrganizationDeletedEventSchema L ev =
     (BaseEventSchema L ev \<and> eventType ev = ''OrganizationDeleted'' \<and>
      eventVersion ev = ''v1'' \<and>
      (case data ev of
         OrganizationDeletedData org actor tm \<Rightarrow>
           is_uuid L org \<and> is_uuid L actor \<and> is_datetime L tm
       | _ \<Rightarrow> False))"

definition MemberAddedEventSchema :: "lib \<Rightarrow> event \<Rightarrow> bool" where
  "MemberAddedEventSchema L ev =
     (BaseEventSchema L ev \<and> eventType ev = ''MemberAdded'' \<and> eventVersion ev = ''v1'' \<and>
      (case data ev of
         MemberAddedData org usr role actor tm \<Rightarrow>
           is_uuid L org \<and> is_uuid L usr \<and> is_uuid L actor \<and> is_datetime L tm
       | _ \<Rightarrow> False))"

definition MemberRemovedEventSchema :: "lib \<Rightarrow> event \<Rightarrow> bool" where
  "MemberRemovedEventSchema L ev =
     (BaseEventSchema L ev \<and> eventType ev = ''MemberRemoved'' \<and> eventVersion ev = ''v1'' \<and>
      (case data ev of
         MemberRemovedData org usr actor tm \<Rightarrow>
           is_uuid L org \<and> is_uuid L usr \<and> is_uuid L actor \<and> is_datetime L tm
       | _ \<Rightarrow> False))"

definition RoleChangedEventSchema :: "lib \<Rightarrow> event \<Rightarrow> bool" where
  "RoleChangedEventSchema L ev =
     (BaseEventSchema L ev \<and> eventType ev = ''RoleChanged'' \<and> eventVersion ev = ''v1'' \<and>
      (case data ev of
         RoleChangedData org usr old new actor tm \<Rightarrow>
           is_uuid L org \<and> is_uuid L usr \<and> is_uuid L actor \<and> is_datetime L tm
       | _ \<Rightarrow> False))"

definition EntitlementsUpdatedEventSchema :: "lib \<Rightarrow> event \<Rightarrow> bool" where
  "EntitlementsUpdatedEventSchema L ev =
     (BaseEventSchema L ev \<and> eventType ev = ''EntitlementsUpdated'' \<and>
      eventVersion ev = ''v1'' \<and>
      (case data ev of
         EntitlementsUpdatedData org mp mt mm fs tm \<Rightarrow> is_uuid L org \<and> is_datetime L tm
       | _ \<Rightarrow> False))"

definition TaskCreatedEventSchema :: "lib \<Rightarrow> event \<Rightarrow> bool" where
  "TaskCreatedEventSchema L ev =
     (BaseEventSchema L ev \<and> eventType ev = ''TaskCreated'' \<and> eventVersion ev = ''v1'' \<and>
      (case data ev of
         TaskCreatedData org prj tsk title actor tm \<Rightarrow>
           is_uuid L org \<and> is_uuid L prj \<and> is_uuid L tsk \<and> is_uuid L actor \<and>
           is_datetime L tm
       | _ \<Rightarrow> False))"

text \<open>
  The value of a Kafka message: \<open>JSON.parse(message.value.toString())\<close> either throws
  or yields an event object.
\<close>

datatype payload = Unparseable | Json event

definition JSON_parse :: "payload \<Rightarrow> error + event" where
  "JSON_parse p = (case p of Unparseable \<Rightarrow> Inl SyntaxError | Json ev \<Rightarrow> Inr ev)"

subsection \<open>The world of one service\<close>

text \<open>
  A service owns its tables, writes log lines and publishes events. \<open>faults\<close> is the
  schedule of the store: its head says whether the next \<open>pool.query\<close> is rejected; the
  empty schedule is a store that is available from now on. \<open>bus_faults\<close> is the same
  for \<open>producer.send\<close>.
\<close>

record 't world =
  tables :: 't
  faults :: "bool list"
  bus_faults :: "bool list"
  logs :: "(level \<times> string) list"
  published :: "(string \<times> event) list"

text \<open>\<open>pool.query\<close>: consumes one entry of the schedule; \<open>True\<close> when the query runs.\<close>

definition pool_query :: "'t world \<Rightarrow> bool \<times> 't world" where
  "pool_query w =
     (case faults w of [] \<Rightarrow> (True, w) | f # fs \<Rightarrow> (\<not> f, w\<lparr>faults := fs\<rparr>))"

text \<open>
  One statement sent with \<open>pool.query\<close>: it is rejected when the store is unavailable
  (\<open>StoreUnavailable\<close>) and when the database refuses its parameters
  (\<open>DatabaseError\<close>); \<open>acceptable\<close> says whether the database takes them.
\<close>

definition run_query :: "bool \<Rightarrow> 't world \<Rightarrow> error option \<times> 't world" where
  "run_query acceptable w =
     (case pool_query w of
        (ok, w1) \<Rightarrow>
          (if \<not> ok then Some StoreUnavailable
           else if \<not> acceptable then Some DatabaseError else None, w1))"

definition logger_info :: "string \<Rightarrow> 't world \<Rightarrow> 't world" where
  "logger_info msg w = w\<lparr>logs := logs w @ [(Info, msg)]\<rparr>"

definition logger_error :: "string \<Rightarrow> 't world \<Rightarrow> 't world" where
  "logger_error msg w = w\<lparr>logs := logs w @ [(Err, msg)]\<rparr>"

text \<open>
  \<open>EventPublisher.publish\<close>: sends the event on the topic and logs it; when the
  producer rejects, it logs the error and throws it on.
\<close>

definition publish :: "string \<Rightarrow> event \<Rightarrow> 't world \<Rightarrow> (error + unit) \<times> 't world" where
  "publish topic ev w =
     (case bus_faults w of
        [] \<Rightarrow>
          (Inr (), logger_info ''Event published''
                     (w\<lparr>published := published w @ [(topic, ev)]\<rparr>))
      | f # fs \<Rightarrow>
          if f then (Inl BusUnavailable,
                     logger_error ''Failed to publish event'' (w\<lparr>bus_faults := fs\<rparr>))
          else (Inr (), logger_info ''Event published''
                          (w\<lparr>bus_faults := fs, published := published w @ [(topic, ev)]\<rparr>)))"

section \<open>Workflow service\<close>

subsection \<open>Tables (migrations/001_initial_schema.sql) and row types\<close>

text \<open>
  The id columns are of type UUID: a row holds an id in the form in which the database
  returns it. \<open>name\<close>, \<open>title\<close> and \<open>role\<close> are VARCHAR(255), VARCHAR(255) and
  VARCHAR(50).
\<close>

datatype project_status = Active | Archived | Deleted

record project =
  pr_id :: string
  pr_organizationId :: string
  pr_name :: string
  pr_description :: "string option"
  pr_status :: project_status
  pr_createdBy :: string
  pr_createdAt :: nat
  pr_updatedAt :: nat
  pr_archivedAt :: "nat option"

datatype task_status = Todo | InProgress | Done | Cancelled

record task =
  tk_id :: string
  tk_organizationId :: string
  tk_projectId :: string
  tk_title :: string
  tk_description :: "string option"
  tk_status :: task_status
  tk_assignedTo :: "string option"
  tk_createdBy :: string
  tk_createdAt :: nat
  tk_updatedAt :: nat
  tk_completedAt :: "nat option"

record MembershipCache =
  mc_organizationId :: string
  mc_userId :: string
  mc_role :: string
  mc_cachedAt :: nat

text \<open>
  A row of \<open>entitlements_cache\<close>: the three limits are nullable INTEGER columns,
  \<open>features\<close> a nullable TEXT[]. \<open>EntitlementsCache\<close> is the TypeScript object, whose
  limits are JavaScript numbers.
\<close>

record entitlements_row =
  er_organization_id :: string
  er_max_projects :: "int option"
  er_max_tasks :: "int option"
  er_max_members :: "int option"
  er_features :: "string list option"
  er_cached_at :: nat

record EntitlementsCache =
  ec_organizationId :: string
  ec_maxProjects :: "rat option"
  ec_maxTasks :: "rat option"
  ec_maxMembers :: "rat option"
  ec_features :: "string list"
  ec_cachedAt :: nat

record wf_tables =
  projects :: "project list"
  tasks :: "task list"
  membership_cache :: "MembershipCache list"
  entitlements_cache :: "entitlements_row list"

type_synonym wf = "wf_tables world"


definition entitlements_pk :: "entitlements_row list \<Rightarrow> bool" where
  "entitlements_pk rows = distinct (map er_organization_id rows)"

subsection \<open>CacheRepository (repositories/cache.repository.ts)\<close>

text \<open>The row of the given organization and user, both in the stored form.\<close>

definition mc_matches :: "string \<Rightarrow> string \<Rightarrow> MembershipCache \<Rightarrow> bool" where
  "mc_matches org usr r = (mc_organizationId r = org \<and> mc_userId r = usr)"

text \<open>
  \<open>INSERT ... ON CONFLICT (organization_id, user_id) DO UPDATE SET role = EXCLUDED.role,
  cached_at = CURRENT_TIMESTAMP\<close>: a row with the key is updated in place, otherwise a
  row is added; \<open>cached_at\<close> is the time of the statement, not \<open>membership.cachedAt\<close>.
\<close>

definition upsert_membership_rows ::
  "string \<Rightarrow> string \<Rightarrow> string \<Rightarrow> nat \<Rightarrow> MembershipCache list \<Rightarrow> MembershipCache list" where
  "upsert_membership_rows org usr role now rows =
     (if list_ex (mc_matches org usr) rows
      then map (\<lambda>r. if mc_matches org usr r then r\<lparr>mc_role := role, mc_cachedAt := now\<rparr> else r) rows
      else rows @ [\<lparr>mc_organizationId = org, mc_userId = usr, mc_role = role, mc_cachedAt = now\<rparr>])"

text \<open>
  The statement is rejected when an id is no UUID or the role is longer than 50
  characters.
\<close>

definition upsertMembership ::
  "lib \<Rightarrow> env \<Rightarrow> MembershipCache \<Rightarrow> wf \<Rightarrow> (error + unit) \<times> wf" where
  "upsertMembership L e m w =
     (case run_query (pg_valid L (mc_organizationId m) \<and> pg_valid L (mc_userId m) \<and>
                      length (mc_role m) \<le> 50) w of
        (Some x, w1) \<Rightarrow> (Inl x, w1)
      | (None, w1) \<Rightarrow>
          (Inr (),
           w1\<lparr>tables := (tables w1)\<lparr>membership_cache :=
              upsert_membership_rows (canon L (mc_organizationId m)) (canon L (mc_userId m))
                (mc_role m) (clock e) (membership_cache (tables w1))\<rparr>\<rparr>))"

text \<open>\<open>SELECT * ... WHERE organization_id = $1 AND user_id = $2\<close>, then \<open>rows[0]\<close> or null.\<close>

definition getMembership ::
  "lib \<Rightarrow> string \<Rightarrow> string \<Rightarrow> wf \<Rightarrow> (error + MembershipCache option) \<times> wf" where
  "getMembership L org usr w =
     (case run_query (pg_valid L org \<and> pg_valid L usr) w of
        (Some x, w1) \<Rightarrow> (Inl x, w1)
      | (None, w1) \<Rightarrow>
          (case filter (mc_matches (canon L org) (canon L usr)) (membership_cache (tables w1)) of
             [] \<Rightarrow> (Inr None, w1)
           | r # _ \<Rightarrow> (Inr (Some r), w1)))"

definition deleteMembership :: "lib \<Rightarrow> string \<Rightarrow> string \<Rightarrow> wf \<Rightarrow> (error + unit) \<times> wf" where
  "deleteMembership L org usr w =
     (case run_query (pg_valid L org \<and> pg_valid L usr) w of
        (Some x, w1) \<Rightarrow> (Inl x, w1)
      | (None, w1) \<Rightarrow>
          (Inr (),
           w1\<lparr>tables := (tables w1)\<lparr>membership_cache :=
              filter (\<lambda>r. \<not> mc_matches (canon L org) (canon L usr) r)
                (membership_cache (tables w1))\<rparr>\<rparr>))"

text \<open>
  A JavaScript number that an INTEGER column takes: a whole number of 32 bits. An
  absent limit is stored as NULL.
\<close>

definition int4 :: "int \<Rightarrow> bool" where
  "int4 n = (- 2147483648 \<le> n \<and> n \<le> 2147483647)"

definition pg_integer :: "rat option \<Rightarrow> bool" where
  "pg_integer v = (case v of None \<Rightarrow> True | Some q \<Rightarrow> of_int \<lfloor>q\<rfloor> = q \<and> int4 \<lfloor>q\<rfloor>)"

definition to_integer :: "rat option \<Rightarrow> int option" where
  "to_integer v = (case v of None \<Rightarrow> None | Some q \<Rightarrow> Some \<lfloor>q\<rfloor>)"

definition upsert_entitlements_rows ::
  "lib \<Rightarrow> EntitlementsCache \<Rightarrow> nat \<Rightarrow> entitlements_row list \<Rightarrow> entitlements_row list" where
  "upsert_entitlements_rows L c now rows =
     (if list_ex (\<lambda>r. er_organization_id r = canon L (ec_organizationId c)) rows
      then map (\<lambda>r. if er_organization_id r = canon L (ec_organizationId c)
                     then r\<lparr>er_max_projects := to_integer (ec_maxProjects c),
                           er_max_tasks := to_integer (ec_maxTasks c),
                           er_max_members := to_integer (ec_maxMembers c),
                           er_features := Some (ec_features c), er_cached_at := now\<rparr>
                     else r) rows
      else rows @ [\<lparr>er_organization_id = canon L (ec_organizationId c),
                     er_max_projects = to_integer (ec_maxProjects c),
                     er_max_tasks = to_integer (ec_maxTasks c),
                     er_max_members = to_integer (ec_maxMembers c),
                     er_features = Some (ec_features c), er_cached_at = now\<rparr>])"

definition upsertEntitlements ::
  "lib \<Rightarrow> env \<Rightarrow> EntitlementsCache \<Rightarrow> wf \<Rightarrow> (error + unit) \<times> wf" where
  "upsertEntitlements L e c w =
     (case run_query (pg_valid L (ec_organizationId c) \<and> pg_integer (ec_maxProjects c) \<and>
                      pg_integer (ec_maxTasks c) \<and> pg_integer (ec_maxMembers c)) w of
        (Some x, w1) \<Rightarrow> (Inl x, w1)
      | (None, w1) \<Rightarrow>
          (Inr (),
           w1\<lparr>tables := (tables w1)\<lparr>entitlements_cache :=
              upsert_entitlements_rows L c (clock e) (entitlements_cache (tables w1))\<rparr>\<rparr>))"

text \<open>
  The driver returns an INTEGER as a number;
  \<open>features: result.rows[0].features || []\<close>: a NULL column reads as the empty list.
\<close>

definition row_to_entitlements :: "entitlements_row \<Rightarrow> EntitlementsCache" where
  "row_to_entitlements r =
     \<lparr>ec_organizationId = er_organization_id r,
      ec_maxProjects = map_option of_int (er_max_projects r),
      ec_maxTasks = map_option of_int (er_max_tasks r),
      ec_maxMembers = map_option of_int (er_max_members r),
      ec_features = (case er_features r of None \<Rightarrow> [] | Some fs \<Rightarrow> fs),
      ec_cachedAt = er_cached_at r\<rparr>"

definition getEntitlements ::
  "lib \<Rightarrow> string \<Rightarrow> wf \<Rightarrow> (error + EntitlementsCache option) \<times> wf" where
  "getEntitlements L org w =
     (case run_query (pg_valid L org) w of
        (Some x, w1) \<Rightarrow> (Inl x, w1)
      | (None, w1) \<Rightarrow>
          (case filter (\<lambda>r. er_organization_id r = canon L org) (entitlements_cache (tables w1)) of
             [] \<Rightarrow> (Inr None, w1)
           | r # _ \<Rightarrow> (Inr (Some (row_to_entitlements r)), w1)))"

definition deleteEntitlements :: "lib \<Rightarrow> string \<Rightarrow> wf \<Rightarrow> (error + unit) \<times> wf" where
  "deleteEntitlements L org w =
     (case run_query (pg_valid L org) w of
        (Some x, w1) \<Rightarrow> (Inl x, w1)
      | (None, w1) \<Rightarrow>
          (Inr (),
           w1\<lparr>tables := (tables w1)\<lparr>entitlements_cache :=
              filter (\<lambda>r. er_organization_id r \<noteq> canon L org)
                (entitlements_cache (tables w1))\<rparr>\<rparr>))"

subsection \<open>ProjectRepository and TaskRepository\<close>

text \<open>
  \<open>INSERT INTO projects (organization_id, name, description, created_by) ... RETURNING *\<close>:
  the id, the status \<open>'active'\<close> and the two timestamps are the column defaults. The
  statement is rejected when \<open>organization_id\<close> or \<open>created_by\<close> is no UUID or the name
  is longer than 255 characters.
\<close>

record CreateProjectInput =
  cpi_organizationId :: string
  cpi_name :: string
  cpi_description :: "string option"
  cpi_createdBy :: string

definition project_create ::
  "lib \<Rightarrow> env \<Rightarrow> CreateProjectInput \<Rightarrow> wf \<Rightarrow> (error + project) \<times> wf" where
  "project_create L e inp w =
     (case run_query (pg_valid L (cpi_organizationId inp) \<and> pg_valid L (cpi_createdBy inp) \<and>
                      length (cpi_name inp) \<le> 255) w of
        (Some x, w1) \<Rightarrow> (Inl x, w1)
      | (None, w1) \<Rightarrow>
          (let p = \<lparr>pr_id = row_id e, pr_organizationId = canon L (cpi_organizationId inp),
                     pr_name = cpi_name inp, pr_description = cpi_description inp,
                     pr_status = Active, pr_createdBy = canon L (cpi_createdBy inp),
                     pr_createdAt = clock e, pr_updatedAt = clock e,
                     pr_archivedAt = None\<rparr>
           in (Inr p, w1\<lparr>tables := (tables w1)\<lparr>projects := projects (tables w1) @ [p]\<rparr>\<rparr>)))"


text \<open>
  \<open>... WHERE organization_id = $1 AND status != 'deleted' ORDER BY created_at DESC\<close>.
  SQL leaves the order of rows with equal \<open>created_at\<close> open; the model takes the
  reverse of a stable ascending sort.
\<close>

definition project_findByOrganization ::
  "lib \<Rightarrow> string \<Rightarrow> wf \<Rightarrow> (error + project list) \<times> wf" where
  "project_findByOrganization L org w =
     (case run_query (pg_valid L org) w of
        (Some x, w1) \<Rightarrow> (Inl x, w1)
      | (None, w1) \<Rightarrow>
          (Inr (rev (sort_key pr_createdAt
              (filter (\<lambda>p. pr_organizationId p = canon L org \<and> pr_status p \<noteq> Deleted)
                 (projects (tables w1))))), w1))"

text \<open>\<open>SELECT COUNT(*) ... WHERE organization_id = $1 AND status = 'active'\<close>.\<close>

definition project_countByOrganization ::
  "lib \<Rightarrow> string \<Rightarrow> wf \<Rightarrow> (error + int) \<times> wf" where
  "project_countByOrganization L org w =
     (case run_query (pg_valid L org) w of
        (Some x, w1) \<Rightarrow> (Inl x, w1)
      | (None, w1) \<Rightarrow>
          (Inr (int (length (filter (\<lambda>p. pr_organizationId p = canon L org \<and> pr_status p = Active)
                    (projects (tables w1))))), w1))"

text \<open>
  \<open>UPDATE projects SET status = 'archived', archived_at = CURRENT_TIMESTAMP, updated_at =
  CURRENT_TIMESTAMP WHERE id = $1 RETURNING *\<close>, then \<open>mapRowToProject(result.rows[0])\<close>,
  which throws a TypeError when no row has the id.
\<close>

definition archive_row :: "nat \<Rightarrow> project \<Rightarrow> project" where
  "archive_row now p = p\<lparr>pr_status := Archived, pr_archivedAt := Some now, pr_updatedAt := now\<rparr>"

definition project_archive :: "lib \<Rightarrow> env \<Rightarrow> string \<Rightarrow> wf \<Rightarrow> (error + project) \<times> wf" where
  "project_archive L e i w =
     (case run_query (pg_valid L i) w of
        (Some x, w1) \<Rightarrow> (Inl x, w1)
      | (None, w1) \<Rightarrow>
          (let rows = map (\<lambda>p. if pr_id p = canon L i then archive_row (clock e) p else p)
                        (projects (tables w1));
               w2 = w1\<lparr>tables := (tables w1)\<lparr>projects := rows\<rparr>\<rparr>
           in (case filter (\<lambda>p. pr_id p = canon L i) rows of
                 [] \<Rightarrow> (Inl TypeError, w2)
               | p # _ \<Rightarrow> (Inr p, w2))))"




subsection \<open>WorkflowService (services/workflow.service.ts)\<close>

text \<open>
  \<open>lim && currentCount >= lim\<close> on a nullable number: \<open>null\<close> and \<open>0\<close> are falsy, so
  neither limits anything.
\<close>

definition limit_reached :: "rat option \<Rightarrow> int \<Rightarrow> bool" where
  "limit_reached limit currentCount =
     (case limit of None \<Rightarrow> False | Some n \<Rightarrow> n \<noteq> 0 \<and> of_int currentCount \<ge> n)"

text \<open>\<open>correlationId || getCorrelationId()\<close>.\<close>

definition correlation_or_new :: "env \<Rightarrow> string \<Rightarrow> string" where
  "correlation_or_new e corr = (if corr = [] then corr_id e else corr)"

definition createProject ::
  "lib \<Rightarrow> env \<Rightarrow> CreateProjectInput \<Rightarrow> string \<Rightarrow> wf \<Rightarrow> (error + project) \<times> wf" where
  "createProject L e inp corr w =
     (case getEntitlements L (cpi_organizationId inp) w of
        (Inl x, w1) \<Rightarrow> (Inl x, w1)
      | (Inr entitlements, w1) \<Rightarrow>
          (case (case entitlements of
                   None \<Rightarrow> (Inr (), w1)
                 | Some ent \<Rightarrow>
                     (case project_countByOrganization L (cpi_organizationId inp) w1 of
                        (Inl x, w2) \<Rightarrow> (Inl x, w2)
                      | (Inr currentCount, w2) \<Rightarrow>
                          if limit_reached (ec_maxProjects ent) currentCount
                          then (Inl (AppError ''Project limit reached for this organization''), w2)
                          else (Inr (), w2))) of
             (Inl x, w3) \<Rightarrow> (Inl x, w3)
           | (Inr _, w3) \<Rightarrow>
               (case project_create L e inp w3 of
                  (Inl x, w4) \<Rightarrow> (Inl x, w4)
                | (Inr p, w4) \<Rightarrow>
                    (case publish ''workflow.project.created''
                            (createEvent L e ''ProjectCreated'' ''v1''
                               (ProjectCreatedData (cpi_organizationId inp) (pr_id p) (pr_name p)
                                  (pr_createdBy p) (toISOString L (pr_createdAt p)))
                               ''workflow-service'' (correlation_or_new e corr)
                               (Some (pr_createdBy p)) (Some (cpi_organizationId inp)))
                            w4 of
                       (Inl x, w5) \<Rightarrow> (Inl x, w5)
                     | (Inr _, w5) \<Rightarrow> (Inr p, w5)))))"


definition verifyMembership ::
  "lib \<Rightarrow> string \<Rightarrow> string \<Rightarrow> wf \<Rightarrow> (error + bool) \<times> wf" where
  "verifyMembership L org usr w =
     (case getMembership L org usr w of
        (Inl x, w1) \<Rightarrow> (Inl x, w1)
      | (Inr membership, w1) \<Rightarrow> (Inr (membership \<noteq> None), w1))"

subsection \<open>Auth middleware and routes\<close>

text \<open>
  The parts of an Express request the middleware and the two creation routes read. A
  header, route parameter or body field that is absent is \<open>None\<close>; the body is an
  object and its fields, when present, are strings.
\<close>

record body =
  b_organizationId :: "string option"
  b_projectId :: "string option"
  b_name :: "string option"
  b_title :: "string option"
  b_description :: "string option"

record request =
  h_authorization :: "string option"
  h_x_user_id :: "string option"
  h_x_organization_id :: "string option"
  h_x_correlation_id :: "string option"
  params_organizationId :: "string option"
  req_body :: body

datatype response =
    ErrorResponse nat string
  | ProjectResponse nat project
  | TaskResponse nat task

text \<open>Truthiness of a possibly absent string, and \<open>a || b\<close>.\<close>

definition truthy :: "string option \<Rightarrow> bool" where
  "truthy v = (case v of None \<Rightarrow> False | Some s \<Rightarrow> s \<noteq> [])"

definition or_else :: "string option \<Rightarrow> string option \<Rightarrow> string option" where
  "or_else a b = (if truthy a then a else b)"

definition startsWith :: "string \<Rightarrow> string \<Rightarrow> bool" where
  "startsWith s p = (take (length p) s = p)"

text \<open>
  The middleware answers itself (\<open>Inl\<close>) or calls \<open>next()\<close> with \<open>req.userId\<close> and
  \<open>req.organizationId\<close> set (\<open>Inr\<close>).
\<close>

definition authMiddleware ::
  "lib \<Rightarrow> request \<Rightarrow> wf \<Rightarrow> (response + string \<times> string option) \<times> wf" where
  "authMiddleware L req w =
     (case h_authorization req of
        None \<Rightarrow> (Inl (ErrorResponse 401 ''Missing or invalid authorization header''), w)
      | Some authHeader \<Rightarrow>
          if authHeader = [] \<or> \<not> startsWith authHeader ''Bearer ''
          then (Inl (ErrorResponse 401 ''Missing or invalid authorization header''), w)
          else
            (case h_x_user_id req of
               None \<Rightarrow> (Inl (ErrorResponse 401 ''User ID not found''), w)
             | Some uid \<Rightarrow>
                 if uid = [] then (Inl (ErrorResponse 401 ''User ID not found''), w)
                 else
                   (case or_else (h_x_organization_id req) (params_organizationId req) of
                      None \<Rightarrow> (Inr (uid, None), w)
                    | Some org \<Rightarrow>
                        if org = [] then (Inr (uid, Some org), w)
                        else
                          (case verifyMembership L org uid w of
                             (Inl x, w1) \<Rightarrow> (Inl (ErrorResponse 401 ''Authentication failed''), w1)
                           | (Inr isMember, w1) \<Rightarrow>
                               if \<not> isMember
                               then (Inl (ErrorResponse 403
                                       ''User is not a member of this organization''), w1)
                               else (Inr (uid, Some org), w1)))))"






subsection \<open>EventConsumer (events/event-consumer.ts)\<close>

text \<open>\<open>try { body } catch (error) { logger.error(..., msg) }\<close>: the error goes no further.\<close>

definition catch_log :: "string \<Rightarrow> (error + unit) \<times> 't world \<Rightarrow> (error + unit) \<times> 't world" where
  "catch_log msg r =
     (case r of (Inl x, w) \<Rightarrow> (Inr (), logger_error msg w) | (Inr u, w) \<Rightarrow> (Inr u, w))"

definition handleMemberAdded :: "lib \<Rightarrow> env \<Rightarrow> event \<Rightarrow> wf \<Rightarrow> (error + unit) \<times> wf" where
  "handleMemberAdded L e ev w =
     catch_log ''Failed to handle MemberAdded event''
       (if \<not> MemberAddedEventSchema L ev then (Inl ZodError, w)
        else
          (case data ev of
             MemberAddedData org usr role actor tm \<Rightarrow>
               (case upsertMembership L e
                       \<lparr>mc_organizationId = org, mc_userId = usr, mc_role = role,
                        mc_cachedAt = clock e\<rparr> w of
                  (Inl x, w1) \<Rightarrow> (Inl x, w1)
                | (Inr _, w1) \<Rightarrow> (Inr (), logger_info ''Membership cached'' w1))
           | _ \<Rightarrow> (Inl ZodError, w)))"

definition handleMemberRemoved :: "lib \<Rightarrow> env \<Rightarrow> event \<Rightarrow> wf \<Rightarrow> (error + unit) \<times> wf" where
  "handleMemberRemoved L e ev w =
     catch_log ''Failed to handle MemberRemoved event''
       (if \<not> MemberRemovedEventSchema L ev then (Inl ZodError, w)
        else
          (case data ev of
             MemberRemovedData org usr actor tm \<Rightarrow>
               (case deleteMembership L org usr w of
                  (Inl x, w1) \<Rightarrow> (Inl x, w1)
                | (Inr _, w1) \<Rightarrow> (Inr (), logger_info ''Membership removed from cache'' w1))
           | _ \<Rightarrow> (Inl ZodError, w)))"

definition handleRoleChanged :: "lib \<Rightarrow> env \<Rightarrow> event \<Rightarrow> wf \<Rightarrow> (error + unit) \<times> wf" where
  "handleRoleChanged L e ev w =
     catch_log ''Failed to handle RoleChanged event''
       (if \<not> RoleChangedEventSchema L ev then (Inl ZodError, w)
        else
          (case data ev of
             RoleChangedData org usr old new actor tm \<Rightarrow>
               (case upsertMembership L e
                       \<lparr>mc_organizationId = org, mc_userId = usr, mc_role = new,
                        mc_cachedAt = clock e\<rparr> w of
                  (Inl x, w1) \<Rightarrow> (Inl x, w1)
                | (Inr _, w1) \<Rightarrow> (Inr (), logger_info ''Membership role updated in cache'' w1))
           | _ \<Rightarrow> (Inl ZodError, w)))"

definition handleEntitlementsUpdated ::
  "lib \<Rightarrow> env \<Rightarrow> event \<Rightarrow> wf \<Rightarrow> (error + unit) \<times> wf" where
  "handleEntitlementsUpdated L e ev w =
     catch_log ''Failed to handle EntitlementsUpdated event''
       (if \<not> EntitlementsUpdatedEventSchema L ev then (Inl ZodError, w)
        else
          (case data ev of
             EntitlementsUpdatedData org mp mt mm fs tm \<Rightarrow>
               (case upsertEntitlements L e
                       \<lparr>ec_organizationId = org, ec_maxProjects = Some mp,
                        ec_maxTasks = Some mt, ec_maxMembers = Some mm, ec_features = fs,
                        ec_cachedAt = clock e\<rparr> w of
                  (Inl x, w1) \<Rightarrow> (Inl x, w1)
                | (Inr _, w1) \<Rightarrow> (Inr (), logger_info ''Entitlements cached'' w1))
           | _ \<Rightarrow> (Inl ZodError, w)))"

text \<open>\<open>for (const project of projects) await this.projectRepository.archive(project.id)\<close>.\<close>

fun archive_each :: "lib \<Rightarrow> env \<Rightarrow> project list \<Rightarrow> wf \<Rightarrow> (error + unit) \<times> wf" where
  "archive_each L e [] w = (Inr (), w)"
| "archive_each L e (p # ps) w =
     (case project_archive L e (pr_id p) w of
        (Inl x, w1) \<Rightarrow> (Inl x, w1)
      | (Inr _, w1) \<Rightarrow> archive_each L e ps w1)"

definition handleOrganizationDeleted ::
  "lib \<Rightarrow> env \<Rightarrow> event \<Rightarrow> wf \<Rightarrow> (error + unit) \<times> wf" where
  "handleOrganizationDeleted L e ev w =
     catch_log ''Failed to handle OrganizationDeleted event''
       (if \<not> OrganizationDeletedEventSchema L ev then (Inl ZodError, w)
        else
          (case data ev of
             OrganizationDeletedData org actor tm \<Rightarrow>
               (case project_findByOrganization L org w of
                  (Inl x, w1) \<Rightarrow> (Inl x, w1)
                | (Inr ps, w1) \<Rightarrow>
                    (case archive_each L e ps w1 of
                       (Inl x, w2) \<Rightarrow> (Inl x, w2)
                     | (Inr _, w2) \<Rightarrow>
                         (case deleteEntitlements L org w2 of
                            (Inl x, w3) \<Rightarrow> (Inl x, w3)
                          | (Inr _, w3) \<Rightarrow>
                              (Inr (), logger_info
                                 ''Organization deleted - projects archived'' w3))))
           | _ \<Rightarrow> (Inl ZodError, w)))"

text \<open>The \<open>eachMessage\<close> callback given to \<open>consumer.run\<close>.\<close>

definition wf_eachMessage ::
  "lib \<Rightarrow> env \<Rightarrow> string \<Rightarrow> payload \<Rightarrow> wf \<Rightarrow> (error + unit) \<times> wf" where
  "wf_eachMessage L e topic p w =
     catch_log ''Failed to process event''
       (case JSON_parse p of
          Inl x \<Rightarrow> (Inl x, w)
        | Inr ev \<Rightarrow>
            if topic = ''organization.member.added'' then handleMemberAdded L e ev w
            else if topic = ''organization.member.removed'' then handleMemberRemoved L e ev w
            else if topic = ''organization.role.changed'' then handleRoleChanged L e ev w
            else if topic = ''billing.entitlements.updated''
              then handleEntitlementsUpdated L e ev w
            else if topic = ''organization.deleted'' then handleOrganizationDeleted L e ev w
            else (Inr (), w))"

text \<open>
  The runner of the Kafka client (the kafkajs library, not part of the repository) calls
  \<open>eachMessage\<close> once for every delivered message, in partition order. A call that
  resolves acknowledges the message: its offset is committed and the bus does not deliver
  it again. A call that rejects is not acknowledged and the runner stops there, to
  fetch the same message again later. A delivered message is the environment of its
  handling, its topic and its value; the result counts the acknowledged messages.
\<close>

fun consumer_run ::
  "('m \<Rightarrow> 't world \<Rightarrow> (error + unit) \<times> 't world) \<Rightarrow> 'm list \<Rightarrow> 't world \<Rightarrow> nat \<times> 't world" where
  "consumer_run f [] w = (0, w)"
| "consumer_run f (m # ms) w =
     (case f m w of
        (Inl x, w1) \<Rightarrow> (0, w1)
      | (Inr _, w1) \<Rightarrow> (case consumer_run f ms w1 of (n, w2) \<Rightarrow> (Suc n, w2)))"

definition wf_run :: "lib \<Rightarrow> (env \<times> string \<times> payload) list \<Rightarrow> wf \<Rightarrow> nat \<times> wf" where
  "wf_run L ms w = consumer_run (\<lambda>(e, topic, p). wf_eachMessage L e topic p) ms w"

section \<open>Analytics service\<close>

text \<open>
  A row of \<open>task_metrics\<close>, UNIQUE on \<open>(organization_id, project_id, date)\<close>. The
  counters are INTEGER columns; \<open>avg_completion_time_hours\<close> is DECIMAL(10, 2), kept in
  hundredths.
\<close>

record task_metrics_row =
  tm_id :: string
  tm_organization_id :: string
  tm_project_id :: "string option"
  tm_date :: nat
  tm_tasks_created :: int
  tm_tasks_completed :: int
  tm_tasks_in_progress :: int
  tm_avg_completion_time_hours :: "int option"
  tm_created_at :: nat
  tm_updated_at :: nat

record analytics_tables =
  task_metrics :: "task_metrics_row list"

type_synonym analytics = "analytics_tables world"

text \<open>The argument of \<open>upsertTaskMetrics\<close>, after \<open>metrics.tasksCreated || 0\<close> and so on.\<close>

record TaskMetrics_input =
  tmi_organizationId :: string
  tmi_projectId :: "string option"
  tmi_date :: nat
  tmi_tasksCreated :: int
  tmi_tasksCompleted :: int
  tmi_tasksInProgress :: int
  tmi_avgCompletionTimeHours :: "int option"

text \<open>
  The conflict target: a NULL \<open>project_id\<close> conflicts with nothing (NULLs are distinct
  in a UNIQUE constraint). \<open>organization_id\<close> and \<open>project_id\<close> are UUID columns.
\<close>

definition tm_conflicts :: "lib \<Rightarrow> TaskMetrics_input \<Rightarrow> task_metrics_row \<Rightarrow> bool" where
  "tm_conflicts L m r =
     (tm_organization_id r = canon L (tmi_organizationId m) \<and> tmi_projectId m \<noteq> None \<and>
      tm_project_id r = canon_opt L (tmi_projectId m) \<and> tm_date r = tmi_date m)"

text \<open>
  \<open>ON CONFLICT ... DO UPDATE SET tasks_created = task_metrics.tasks_created +
  EXCLUDED.tasks_created, ...\<close>: the counters of the existing row are added to. A
  counter that leaves the range of INTEGER makes the statement fail.
\<close>

definition tm_merge :: "TaskMetrics_input \<Rightarrow> nat \<Rightarrow> task_metrics_row \<Rightarrow> task_metrics_row" where
  "tm_merge m now r =
     r\<lparr>tm_tasks_created := tm_tasks_created r + tmi_tasksCreated m,
       tm_tasks_completed := tm_tasks_completed r + tmi_tasksCompleted m,
       tm_tasks_in_progress := tm_tasks_in_progress r + tmi_tasksInProgress m,
       tm_avg_completion_time_hours := tmi_avgCompletionTimeHours m,
       tm_updated_at := now\<rparr>"

definition tm_in_range :: "task_metrics_row \<Rightarrow> bool" where
  "tm_in_range r =
     (int4 (tm_tasks_created r) \<and> int4 (tm_tasks_completed r) \<and> int4 (tm_tasks_in_progress r))"

definition upsertTaskMetrics ::
  "lib \<Rightarrow> env \<Rightarrow> TaskMetrics_input \<Rightarrow> analytics \<Rightarrow> (error + task_metrics_row) \<times> analytics" where
  "upsertTaskMetrics L e m w =
     (case run_query (pg_valid L (tmi_organizationId m) \<and> pg_valid_opt L (tmi_projectId m)) w of
        (Some x, w1) \<Rightarrow> (Inl x, w1)
      | (None, w1) \<Rightarrow>
          (let rows = task_metrics (tables w1);
               conflict = list_ex (tm_conflicts L m) rows;
               new_row =
                 \<lparr>tm_id = row_id e, tm_organization_id = canon L (tmi_organizationId m),
                  tm_project_id = canon_opt L (tmi_projectId m), tm_date = tmi_date m,
                  tm_tasks_created = tmi_tasksCreated m,
                  tm_tasks_completed = tmi_tasksCompleted m,
                  tm_tasks_in_progress = tmi_tasksInProgress m,
                  tm_avg_completion_time_hours = tmi_avgCompletionTimeHours m,
                  tm_created_at = clock e, tm_updated_at = clock e\<rparr>;
               rows' =
                 (if conflict
                  then map (\<lambda>r. if tm_conflicts L m r then tm_merge m (clock e) r else r) rows
                  else rows @ [new_row]);
               returning = (if conflict then filter (tm_conflicts L m) rows' else [new_row])
           in if \<not> list_all tm_in_range returning then (Inl DatabaseError, w1)
              else
                (case returning of
                   [] \<Rightarrow> (Inl TypeError, w1)
                 | r # _ \<Rightarrow> (Inr r, w1\<lparr>tables := (tables w1)\<lparr>task_metrics := rows'\<rparr>\<rparr>))))"

definition processTaskCreated ::
  "lib \<Rightarrow> env \<Rightarrow> event \<Rightarrow> analytics \<Rightarrow> (error + unit) \<times> analytics" where
  "processTaskCreated L e ev w =
     catch_log ''Failed to process TaskCreated event''
       (if \<not> TaskCreatedEventSchema L ev then (Inl ZodError, w)
        else
          (case data ev of
             TaskCreatedData org prj tsk title actor tm \<Rightarrow>
               (case upsertTaskMetrics L e
                       \<lparr>tmi_organizationId = org, tmi_projectId = Some prj,
                        tmi_date = dayOf L (clock e), tmi_tasksCreated = 1,
                        tmi_tasksCompleted = 0, tmi_tasksInProgress = 0,
                        tmi_avgCompletionTimeHours = None\<rparr> w of
                  (Inl x, w1) \<Rightarrow> (Inl x, w1)
                | (Inr _, w1) \<Rightarrow> (Inr (), logger_info ''Processed TaskCreated event'' w1))
           | _ \<Rightarrow> (Inl ZodError, w)))"

text \<open>The \<open>eachMessage\<close> callback of the analytics consumer on \<open>workflow.task.created\<close>.\<close>

definition analytics_eachMessage_task_created ::
  "lib \<Rightarrow> env \<Rightarrow> payload \<Rightarrow> analytics \<Rightarrow> (error + unit) \<times> analytics" where
  "analytics_eachMessage_task_created L e p w =
     catch_log ''Failed to process event''
       (case JSON_parse p of
          Inl x \<Rightarrow> (Inl x, w)
        | Inr ev \<Rightarrow> processTaskCreated L e ev w)"

section \<open>Audit service\<close>

text \<open>
  A row of \<open>audit_logs\<close>. The id columns are UUID columns, \<open>event_type\<close>, \<open>source\<close>,
  \<open>action\<close> and \<open>resource_type\<close> are VARCHAR(100), \<open>event_version\<close> is VARCHAR(10),
  \<open>event_id\<close> is UNIQUE and \<open>details\<close> is a nullable JSONB column that holds the event.
\<close>

record AuditLog =
  al_id :: string
  al_eventId :: string
  al_eventType :: string
  al_eventVersion :: string
  al_source :: string
  al_correlationId :: string
  al_traceId :: "string option"
  al_userId :: "string option"
  al_organizationId :: "string option"
  al_action :: string
  al_resourceType :: string
  al_resourceId :: "string option"
  al_details :: "event option"
  al_createdAt :: nat

record audit_tables =
  audit_logs :: "AuditLog list"

type_synonym audit = "audit_tables world"

text \<open>\<open>String.prototype.includes\<close> and, on ASCII letters, \<open>toLowerCase\<close>.\<close>

definition str_includes :: "string \<Rightarrow> string \<Rightarrow> bool" where
  "str_includes s sub = list_ex (\<lambda>i. take (length sub) (drop i s) = sub) [0 ..< Suc (length s)]"

definition lower_char :: "char \<Rightarrow> char" where
  "lower_char c =
     (let n = (of_char c :: nat) in if 65 \<le> n \<and> n \<le> 90 then char_of (n + 32) else c)"

definition toLowerCase :: "string \<Rightarrow> string" where
  "toLowerCase s = map lower_char s"

definition parse_action :: "string \<Rightarrow> string" where
  "parse_action lower =
     (if str_includes lower ''created'' then ''created''
      else if str_includes lower ''updated'' then ''updated''
      else if str_includes lower ''deleted'' then ''deleted''
      else if str_includes lower ''loggedin'' then ''login''
      else if str_includes lower ''loggedout'' then ''logout''
      else if str_includes lower ''assigned'' then ''assigned''
      else if str_includes lower ''archived'' then ''archived''
      else if str_includes lower ''cancelled'' then ''cancelled''
      else if str_includes lower ''activated'' then ''activated''
      else if str_includes lower ''changed'' then ''changed''
      else if str_includes lower ''added'' then ''added''
      else if str_includes lower ''removed'' then ''removed''
      else if str_includes lower ''sent'' then ''sent''
      else ''unknown'')"

definition parse_resourceType :: "string \<Rightarrow> string" where
  "parse_resourceType lower =
     (if str_includes lower ''user'' then ''user''
      else if str_includes lower ''organization'' then ''organization''
      else if str_includes lower ''project'' then ''project''
      else if str_includes lower ''task'' then ''task''
      else if str_includes lower ''subscription'' then ''subscription''
      else if str_includes lower ''plan'' then ''plan''
      else if str_includes lower ''member'' then ''membership''
      else if str_includes lower ''invitation'' then ''invitation''
      else if str_includes lower ''entitlement'' then ''entitlement''
      else ''unknown'')"

text \<open>\<open>parseEventType\<close> returns \<open>{ action, resourceType }\<close>; \<open>resourceId\<close> stays undefined.\<close>

definition parseEventType :: "string \<Rightarrow> string \<times> string \<times> string option" where
  "parseEventType etype =
     (let lower = toLowerCase etype in (parse_action lower, parse_resourceType lower, None))"

text \<open>
  \<open>mapRowToAuditLog\<close> reads \<open>details: row.details ? JSON.parse(row.details) : {}\<close>. The
  driver returns a JSONB value already parsed, so a row that holds an event hands an
  object to \<open>JSON.parse\<close>, which throws a SyntaxError; only a NULL column maps.
\<close>

definition mapRowToAuditLog :: "AuditLog \<Rightarrow> error + AuditLog" where
  "mapRowToAuditLog row = (case al_details row of None \<Rightarrow> Inr row | Some d \<Rightarrow> Inl SyntaxError)"

definition audit_findByEventId ::
  "lib \<Rightarrow> string \<Rightarrow> audit \<Rightarrow> (error + AuditLog option) \<times> audit" where
  "audit_findByEventId L i w =
     (case run_query (pg_valid L i) w of
        (Some x, w1) \<Rightarrow> (Inl x, w1)
      | (None, w1) \<Rightarrow>
          (case filter (\<lambda>r. al_eventId r = canon L i) (audit_logs (tables w1)) of
             [] \<Rightarrow> (Inr None, w1)
           | r # _ \<Rightarrow>
               (case mapRowToAuditLog r of
                  Inl x \<Rightarrow> (Inl x, w1)
                | Inr a \<Rightarrow> (Inr (Some a), w1))))"

text \<open>
  \<open>INSERT INTO audit_logs ... RETURNING *\<close>, then \<open>mapRowToAuditLog(result.rows[0])\<close>:
  the row is inserted before the mapping throws.
\<close>

definition audit_insertable ::
  "lib \<Rightarrow> event \<Rightarrow> string \<Rightarrow> string \<Rightarrow> string option \<Rightarrow> AuditLog list \<Rightarrow> bool" where
  "audit_insertable L ev action resourceType resourceId rows =
     (pg_valid L (eventId ev) \<and> pg_valid L (correlationId ev) \<and>
      pg_valid_opt L (traceId ev) \<and> pg_valid_opt L (userId ev) \<and>
      pg_valid_opt L (organizationId ev) \<and> pg_valid_opt L resourceId \<and>
      length (eventType ev) \<le> 100 \<and> length (eventVersion ev) \<le> 10 \<and>
      length (source ev) \<le> 100 \<and> length action \<le> 100 \<and> length resourceType \<le> 100 \<and>
      \<not> list_ex (\<lambda>r. al_eventId r = canon L (eventId ev)) rows)"

definition audit_create ::
  "lib \<Rightarrow> env \<Rightarrow> event \<Rightarrow> string \<Rightarrow> string \<Rightarrow> string option \<Rightarrow> audit \<Rightarrow>
   (error + AuditLog) \<times> audit" where
  "audit_create L e ev action resourceType resourceId w =
     (case run_query
             (audit_insertable L ev action resourceType resourceId (audit_logs (tables w))) w of
        (Some x, w1) \<Rightarrow> (Inl x, w1)
      | (None, w1) \<Rightarrow>
          (let r = \<lparr>al_id = row_id e, al_eventId = canon L (eventId ev),
                     al_eventType = eventType ev, al_eventVersion = eventVersion ev,
                     al_source = source ev, al_correlationId = canon L (correlationId ev),
                     al_traceId = canon_opt L (traceId ev), al_userId = canon_opt L (userId ev),
                     al_organizationId = canon_opt L (organizationId ev),
                     al_action = action, al_resourceType = resourceType,
                     al_resourceId = canon_opt L resourceId, al_details = Some ev,
                     al_createdAt = clock e\<rparr>
           in (mapRowToAuditLog r,
               w1\<lparr>tables := (tables w1)\<lparr>audit_logs := audit_logs (tables w1) @ [r]\<rparr>\<rparr>)))"

definition recordEvent :: "lib \<Rightarrow> env \<Rightarrow> event \<Rightarrow> audit \<Rightarrow> (error + unit) \<times> audit" where
  "recordEvent L e ev w =
     (case audit_findByEventId L (eventId ev) w of
        (Inl x, w1) \<Rightarrow> (Inl x, w1)
      | (Inr (Some existing), w1) \<Rightarrow>
          (Inr (), logger_info ''Event already audited (idempotent)'' w1)
      | (Inr None, w1) \<Rightarrow>
          (case parseEventType (eventType ev) of
             (action, resourceType, resourceId) \<Rightarrow>
               (case audit_create L e ev action resourceType resourceId w1 of
                  (Inl x, w2) \<Rightarrow> (Inl x, w2)
                | (Inr _, w2) \<Rightarrow> (Inr (), logger_info ''Event audited'' w2))))"

definition audit_eachMessage ::
  "lib \<Rightarrow> env \<Rightarrow> payload \<Rightarrow> audit \<Rightarrow> (error + unit) \<times> audit" where
  "audit_eachMessage L e p w =
     catch_log ''Failed to process event''
       (case JSON_parse p of
          Inl x \<Rightarrow> (Inl x, w)
        | Inr ev \<Rightarrow> recordEvent L e ev w)"

definition audit_run :: "lib \<Rightarrow> (env \<times> payload) list \<Rightarrow> audit \<Rightarrow> nat \<times> audit" where
  "audit_run L ms w = consumer_run (\<lambda>(e, p). audit_eachMessage L e p) ms w"

section \<open>Organization service\<close>

record Organization =
  og_id :: string
  og_name :: string
  og_createdBy :: string
  og_createdAt :: nat
  og_updatedAt :: nat
  og_deletedAt :: "nat option"

record Membership =
  ms_id :: string
  ms_organizationId :: string
  ms_userId :: string
  ms_role :: string
  ms_createdAt :: nat
  ms_updatedAt :: nat
  ms_deletedAt :: "nat option"

record org_tables =
  organizations :: "Organization list"
  memberships :: "Membership list"

type_synonym org = "org_tables world"

text \<open>\<open>UPDATE organizations SET deleted_at = CURRENT_TIMESTAMP WHERE id = $1 AND deleted_at IS NULL\<close>.\<close>

definition organization_softDelete ::
  "lib \<Rightarrow> env \<Rightarrow> string \<Rightarrow> string \<Rightarrow> org \<Rightarrow> (error + unit) \<times> org" where
  "organization_softDelete L e i deletedBy w =
     (case run_query (pg_valid L i) w of
        (Some x, w1) \<Rightarrow> (Inl x, w1)
      | (None, w1) \<Rightarrow>
          (Inr (),
           w1\<lparr>tables := (tables w1)\<lparr>organizations :=
              map (\<lambda>r. if og_id r = canon L i \<and> og_deletedAt r = None
                        then r\<lparr>og_deletedAt := Some (clock e)\<rparr> else r)
                (organizations (tables w1))\<rparr>\<rparr>))"

text \<open>
  \<open>SELECT * FROM memberships WHERE organization_id = $1 AND deleted_at IS NULL ORDER BY
  created_at ASC\<close>.
\<close>

definition membership_findByOrganization ::
  "lib \<Rightarrow> string \<Rightarrow> org \<Rightarrow> (error + Membership list) \<times> org" where
  "membership_findByOrganization L i w =
     (case run_query (pg_valid L i) w of
        (Some x, w1) \<Rightarrow> (Inl x, w1)
      | (None, w1) \<Rightarrow>
          (Inr (sort_key ms_createdAt
              (filter (\<lambda>r. ms_organizationId r = canon L i \<and> ms_deletedAt r = None)
                 (memberships (tables w1)))), w1))"

definition membership_softDelete :: "lib \<Rightarrow> env \<Rightarrow> string \<Rightarrow> org \<Rightarrow> (error + unit) \<times> org" where
  "membership_softDelete L e i w =
     (case run_query (pg_valid L i) w of
        (Some x, w1) \<Rightarrow> (Inl x, w1)
      | (None, w1) \<Rightarrow>
          (Inr (),
           w1\<lparr>tables := (tables w1)\<lparr>memberships :=
              map (\<lambda>r. if ms_id r = canon L i \<and> ms_deletedAt r = None
                        then r\<lparr>ms_deletedAt := Some (clock e)\<rparr> else r)
                (memberships (tables w1))\<rparr>\<rparr>))"

fun softDelete_each :: "lib \<Rightarrow> env \<Rightarrow> Membership list \<Rightarrow> org \<Rightarrow> (error + unit) \<times> org" where
  "softDelete_each L e [] w = (Inr (), w)"
| "softDelete_each L e (m # ms) w =
     (case membership_softDelete L e (ms_id m) w of
        (Inl x, w1) \<Rightarrow> (Inl x, w1)
      | (Inr _, w1) \<Rightarrow> softDelete_each L e ms w1)"

text \<open>\<open>OrganizationService.deleteOrganization\<close>; nothing catches its errors.\<close>

definition deleteOrganization ::
  "lib \<Rightarrow> env \<Rightarrow> string \<Rightarrow> string \<Rightarrow> string option \<Rightarrow> org \<Rightarrow> (error + unit) \<times> org" where
  "deleteOrganization L e orgId deletedBy corr w =
     (case organization_softDelete L e orgId deletedBy w of
        (Inl x, w1) \<Rightarrow> (Inl x, w1)
      | (Inr _, w1) \<Rightarrow>
          (case membership_findByOrganization L orgId w1 of
             (Inl x, w2) \<Rightarrow> (Inl x, w2)
           | (Inr ms, w2) \<Rightarrow>
               (case softDelete_each L e ms w2 of
                  (Inl x, w3) \<Rightarrow> (Inl x, w3)
                | (Inr _, w3) \<Rightarrow>
                    publish ''organization.deleted''
                      (createEvent L e ''OrganizationDeleted'' ''v1''
                         (OrganizationDeletedData orgId deletedBy (toISOString L (clock e)))
                         ''organization-service''
                         (case corr of
                            None \<Rightarrow> corr_id e
                          | Some c \<Rightarrow> if c = [] then corr_id e else c)
                         (Some deletedBy) (Some orgId))
                      w3)))"

section \<open>Derived notions and example data\<close>

text \<open>The next query is answered by the store.\<close>

definition next_query_ok :: "'t world \<Rightarrow> bool" where
  "next_query_ok w = (case faults w of [] \<Rightarrow> True | f # _ \<Rightarrow> \<not> f)"

text \<open>
  An id in the form in which a UUID column holds it: the database reads it as itself.
\<close>

definition stored_form :: "lib \<Rightarrow> string \<Rightarrow> bool" where
  "stored_form L i = (pg_uuid L i = Some i)"

definition project_ids_stored :: "lib \<Rightarrow> wf \<Rightarrow> bool" where
  "project_ids_stored L w = list_all (\<lambda>p. stored_form L (pr_id p)) (projects (tables w))"

text \<open>
  The cached membership of an organization and a user, as the request or the event
  names them: the row that \<open>getMembership\<close> returns when the query runs, and none when
  an id is no UUID.
\<close>

definition cached_membership :: "lib \<Rightarrow> string \<Rightarrow> string \<Rightarrow> wf \<Rightarrow> MembershipCache option" where
  "cached_membership L org usr w =
     (if pg_valid L org \<and> pg_valid L usr
      then (case filter (mc_matches (canon L org) (canon L usr)) (membership_cache (tables w)) of
              [] \<Rightarrow> None
            | r # _ \<Rightarrow> Some r)
      else None)"

text \<open>
  What \<open>getEntitlements\<close> and \<open>project_findByOrganization\<close> return for an organization
  id in the stored form when the query runs.
\<close>

definition cached_entitlements :: "string \<Rightarrow> wf \<Rightarrow> EntitlementsCache option" where
  "cached_entitlements org w =
     (case filter (\<lambda>r. er_organization_id r = org) (entitlements_cache (tables w)) of
        [] \<Rightarrow> None
      | r # _ \<Rightarrow> Some (row_to_entitlements r))"

definition found_projects :: "string \<Rightarrow> wf \<Rightarrow> project list" where
  "found_projects org w =
     rev (sort_key pr_createdAt
       (filter (\<lambda>p. pr_organizationId p = org \<and> pr_status p \<noteq> Deleted) (projects (tables w))))"

text \<open>The rows of \<open>projects\<close> after the projects with the given ids were archived.\<close>

definition archived_ids :: "nat \<Rightarrow> string list \<Rightarrow> project list \<Rightarrow> project list" where
  "archived_ids now ids rows =
     map (\<lambda>p. if pr_id p \<in> set ids then archive_row now p else p) rows"

text \<open>Example data: format checks by length, identifiers, an environment, events.\<close>

definition ex_lib :: lib where
  "ex_lib = \<lparr>is_uuid = (\<lambda>s. length s = 36), is_datetime = (\<lambda>s. length s = 24),
             pg_uuid = (\<lambda>s. if length s = 36 then Some s else None),
             toISOString = (\<lambda>n. ''2026-01-01T00:00:00.000Z''), dayOf = (\<lambda>n. n div 86400)\<rparr>"

definition ex_T :: string where "ex_T = ''11111111-1111-4111-8111-111111111111''"
definition ex_U :: string where "ex_U = ''22222222-2222-4222-8222-222222222222''"
definition ex_V :: string where "ex_V = ''33333333-3333-4333-8333-333333333333''"
definition ex_P1 :: string where "ex_P1 = ''44444444-4444-4444-8444-444444444444''"
definition ex_P2 :: string where "ex_P2 = ''55555555-5555-4555-8555-555555555555''"
definition ex_E1 :: string where "ex_E1 = ''aaaaaaaa-aaaa-4aaa-8aaa-aaaaaaaaaaaa''"
definition ex_C1 :: string where "ex_C1 = ''bbbbbbbb-bbbb-4bbb-8bbb-bbbbbbbbbbbb''"
definition ex_R1 :: string where "ex_R1 = ''cccccccc-cccc-4ccc-8ccc-cccccccccccc''"
definition ex_time :: string where "ex_time = ''2026-01-01T00:00:00.000Z''"

definition ex_env :: env where
  "ex_env = \<lparr>clock = 100, row_id = ex_R1, event_id = ex_E1, corr_id = ex_C1\<rparr>"


definition ex_event :: "string \<Rightarrow> event_data \<Rightarrow> event" where
  "ex_event etype d =
     \<lparr>eventId = ex_E1, eventType = etype, eventVersion = ''v1'', timestamp = ex_time,
      source = ''organization-service'', correlationId = ex_C1, traceId = None,
      userId = Some ex_V, organizationId = Some ex_T, data = d\<rparr>"

definition ex_member_added :: event where
  "ex_member_added = ex_event ''MemberAdded'' (MemberAddedData ex_T ex_U ''admin'' ex_V ex_time)"

definition ex_member_removed :: event where
  "ex_member_removed = ex_event ''MemberRemoved'' (MemberRemovedData ex_T ex_U ex_V ex_time)"

definition ex_role_changed :: event where
  "ex_role_changed =
     ex_event ''RoleChanged'' (RoleChangedData ex_T ex_U ''member'' ''admin'' ex_V ex_time)"

definition ex_entitlements_updated :: event where
  "ex_entitlements_updated =
     (ex_event ''EntitlementsUpdated'' (EntitlementsUpdatedData ex_T 10 100 5 [] ex_time))
       \<lparr>source := ''billing-service''\<rparr>"

definition ex_organization_deleted :: event where
  "ex_organization_deleted =
     ex_event ''OrganizationDeleted'' (OrganizationDeletedData ex_T ex_V ex_time)"

definition ex_task_created :: event where
  "ex_task_created =
     (ex_event ''TaskCreated'' (TaskCreatedData ex_T ex_P1 ex_R1 ''write report'' ex_V ex_time))
       \<lparr>source := ''workflow-service''\<rparr>"

text \<open>An empty workflow store that is available, and one that holds another member of \<open>ex_T\<close>.\<close>

definition ex_wf_empty :: wf where
  "ex_wf_empty =
     \<lparr>tables = \<lparr>projects = [], tasks = [], membership_cache = [], entitlements_cache = []\<rparr>,
      faults = [], bus_faults = [], logs = [], published = []\<rparr>"

definition ex_wf_other_member :: wf where
  "ex_wf_other_member =
     ex_wf_empty\<lparr>tables := (tables ex_wf_empty)\<lparr>membership_cache :=
        [\<lparr>mc_organizationId = ex_T, mc_userId = ex_V, mc_role = ''owner'', mc_cachedAt = 5\<rparr>]\<rparr>\<rparr>"

definition ex_request :: request where
  "ex_request =
     \<lparr>h_authorization = Some ''Bearer token'', h_x_user_id = Some ex_U,
      h_x_organization_id = Some ex_T, h_x_correlation_id = None,
      params_organizationId = None,
      req_body = \<lparr>b_organizationId = None, b_projectId = None, b_name = Some ''roadmap'',
                  b_title = None, b_description = None\<rparr>\<rparr>"


definition active_project_count :: "string \<Rightarrow> wf \<Rightarrow> int" where
  "active_project_count org w =
     int (length (filter (\<lambda>p. pr_organizationId p = org \<and> pr_status p = Active)
       (projects (tables w))))"

definition open_task_count :: "string \<Rightarrow> wf \<Rightarrow> int" where
  "open_task_count org w =
     int (length (filter (\<lambda>t. tk_organizationId t = org \<and> tk_status t \<noteq> Cancelled)
       (tasks (tables w))))"

definition project_limit_open :: "string \<Rightarrow> wf \<Rightarrow> bool" where
  "project_limit_open org w =
     (case cached_entitlements org w of
        None \<Rightarrow> True
      | Some ent \<Rightarrow> \<not> limit_reached (ec_maxProjects ent) (active_project_count org w))"

definition task_limit_open :: "string \<Rightarrow> wf \<Rightarrow> bool" where
  "task_limit_open org w =
     (case cached_entitlements org w of
        None \<Rightarrow> True
      | Some ent \<Rightarrow> \<not> limit_reached (ec_maxTasks ent) (open_task_count org w))"


text \<open>A workflow store with one active project of \<open>ex_T\<close> and an empty membership cache.\<close>

definition ex_project :: "string \<Rightarrow> nat \<Rightarrow> project" where
  "ex_project i t =
     \<lparr>pr_id = i, pr_organizationId = ex_T, pr_name = ''roadmap'', pr_description = None,
      pr_status = Active, pr_createdBy = ex_V, pr_createdAt = t, pr_updatedAt = t,
      pr_archivedAt = None\<rparr>"


text \<open>
  A workflow store in which \<open>ex_T\<close> already has ten active projects and no row in
  \<open>entitlements_cache\<close>, and an empty analytics store.
\<close>

definition ex_ten_ids :: "string list" where
  "ex_ten_ids =
     [''00000000-0000-4000-8000-000000000001'', ''00000000-0000-4000-8000-000000000002'',
      ''00000000-0000-4000-8000-000000000003'', ''00000000-0000-4000-8000-000000000004'',
      ''00000000-0000-4000-8000-000000000005'', ''00000000-0000-4000-8000-000000000006'',
      ''00000000-0000-4000-8000-000000000007'', ''00000000-0000-4000-8000-000000000008'',
      ''00000000-0000-4000-8000-000000000009'', ''00000000-0000-4000-8000-000000000010'']"

definition ex_wf_ten_projects :: wf where
  "ex_wf_ten_projects =
     ex_wf_empty\<lparr>tables := (tables ex_wf_empty)\<lparr>projects :=
        map (\<lambda>i. ex_project i 1) ex_ten_ids\<rparr>\<rparr>"

definition ex_eleventh :: CreateProjectInput where
  "ex_eleventh =
     \<lparr>cpi_organizationId = ex_T, cpi_name = ''eleventh'', cpi_description = None,
      cpi_createdBy = ex_U\<rparr>"

definition ex_analytics_empty :: analytics where
  "ex_analytics_empty =
     \<lparr>tables = \<lparr>task_metrics = []\<rparr>, faults = [], bus_faults = [], logs = [], published = []\<rparr>"


text \<open>An empty audit store, and the events of two example runs of the workflow consumer.\<close>

definition ex_audit_empty :: audit where
  "ex_audit_empty = \<lparr>tables = \<lparr>audit_logs = []\<rparr>, faults = [], bus_faults = [], logs = [], published = []\<rparr>"

definition ex_wf_store_down :: wf where
  "ex_wf_store_down = ex_wf_empty\<lparr>faults := [True]\<rparr>"

definition ex_audit_store_down :: audit where
  "ex_audit_store_down = ex_audit_empty\<lparr>faults := [True]\<rparr>"

definition ex_audit_insert_fails :: audit where
  "ex_audit_insert_fails = ex_audit_empty\<lparr>faults := [False, True]\<rparr>"


text \<open>
  A workflow store in which \<open>ex_T\<close> has two active projects, a cached member and cached
  entitlements; and the same store when its third query is rejected.
\<close>

definition ex_wf_tenant :: wf where
  "ex_wf_tenant =
     \<lparr>tables =
        \<lparr>projects = [ex_project ex_P1 1, ex_project ex_P2 2], tasks = [],
         membership_cache =
           [\<lparr>mc_organizationId = ex_T, mc_userId = ex_U, mc_role = ''admin'', mc_cachedAt = 5\<rparr>],
         entitlements_cache =
           [\<lparr>er_organization_id = ex_T, er_max_projects = Some 10, er_max_tasks = Some 100,
             er_max_members = Some 5, er_features = Some [], er_cached_at = 6\<rparr>]\<rparr>,
      faults = [], bus_faults = [], logs = [], published = []\<rparr>"

definition ex_wf_tenant_third_query_fails :: wf where
  "ex_wf_tenant_third_query_fails = ex_wf_tenant\<lparr>faults := [False, False, True]\<rparr>"

text \<open>The store of the organization service with \<open>ex_T\<close> and its two members.\<close>

definition ex_org_tenant :: org where
  "ex_org_tenant =
     \<lparr>tables =
        \<lparr>organizations =
           [\<lparr>og_id = ex_T, og_name = ''acme'', og_createdBy = ex_V, og_createdAt = 1,
             og_updatedAt = 1, og_deletedAt = None\<rparr>],
         memberships =
           [\<lparr>ms_id = ex_P1, ms_organizationId = ex_T, ms_userId = ex_V, ms_role = ''owner'',
             ms_createdAt = 1, ms_updatedAt = 1, ms_deletedAt = None\<rparr>,
            \<lparr>ms_id = ex_P2, ms_organizationId = ex_T, ms_userId = ex_U, ms_role = ''admin'',
             ms_createdAt = 2, ms_updatedAt = 2, ms_deletedAt = None\<rparr>]\<rparr>,
      faults = [], bus_faults = [], logs = [], published = []\<rparr>"

section \<open>The store and the log\<close>

lemma pool_query_fst: "fst (pool_query w) = next_query_ok w"
  by (simp add: pool_query_def next_query_ok_def split: list.splits)

lemma pool_query_tables: "tables (snd (pool_query w)) = tables w"
  by (simp add: pool_query_def split: list.splits)

lemma run_query_up:
  "faults w = [] \<Longrightarrow> run_query a w = (if a then None else Some DatabaseError, w)"
  by (simp add: run_query_def pool_query_def)

lemma run_query_down:
  "faults w = True # fs \<Longrightarrow> run_query a w = (Some StoreUnavailable, w\<lparr>faults := fs\<rparr>)"
  by (simp add: run_query_def pool_query_def)

lemma run_query_served:
  "faults w = False # fs \<Longrightarrow>
     run_query a w = (if a then None else Some DatabaseError, w\<lparr>faults := fs\<rparr>)"
  by (simp add: run_query_def pool_query_def)

lemma run_query_fst:
  "fst (run_query a w) =
     (if \<not> next_query_ok w then Some StoreUnavailable
      else if \<not> a then Some DatabaseError else None)"
  by (simp add: run_query_def pool_query_def next_query_ok_def split: list.splits)

lemma run_query_frame:
  "tables (snd (run_query a w)) = tables w \<and> logs (snd (run_query a w)) = logs w \<and>
   published (snd (run_query a w)) = published w \<and>
   bus_faults (snd (run_query a w)) = bus_faults w"
  by (simp add: run_query_def pool_query_def split: list.splits)

lemma filter_nil_list_ex: "(filter P xs = []) = (\<not> list_ex P xs)"
  by (simp add: filter_empty_conv list_ex_iff)

lemma catch_log_tables: "tables (snd (catch_log msg r)) = tables (snd r)"
  by (cases r) (auto simp: catch_log_def logger_error_def split: sum.splits)

lemma catch_log_published: "published (snd (catch_log msg r)) = published (snd r)"
  by (cases r) (auto simp: catch_log_def logger_error_def split: sum.splits)

lemma catch_log_fst: "fst (catch_log msg r) = Inr ()"
  by (cases r) (auto simp: catch_log_def split: sum.splits)

section \<open>Membership: a cache miss denies\<close>

lemma getMembership_fst:
  "fst (getMembership L org usr w) =
     (if \<not> next_query_ok w then Inl StoreUnavailable
      else if \<not> (pg_valid L org \<and> pg_valid L usr) then Inl DatabaseError
      else Inr (cached_membership L org usr w))"
proof -
  obtain x w1 where q: "run_query (pg_valid L org \<and> pg_valid L usr) w = (x, w1)"
    by (cases "run_query (pg_valid L org \<and> pg_valid L usr) w")
  have x: "x = (if \<not> next_query_ok w then Some StoreUnavailable
               else if \<not> (pg_valid L org \<and> pg_valid L usr) then Some DatabaseError else None)"
    using run_query_fst [of "pg_valid L org \<and> pg_valid L usr" w] q by simp
  have t: "tables w1 = tables w"
    using run_query_frame [of "pg_valid L org \<and> pg_valid L usr" w] q by simp
  show ?thesis
    using q x t
    by (auto simp: getMembership_def cached_membership_def split: list.splits)
qed

lemma verifyMembership_fst:
  "fst (verifyMembership L org usr w) =
     (case fst (getMembership L org usr w) of
        Inl x \<Rightarrow> Inl x
      | Inr m \<Rightarrow> Inr (m \<noteq> None))"
  by (cases "getMembership L org usr w")
     (auto simp: verifyMembership_def split: sum.splits)

text \<open>
  Claim C2. For an organization and a user with no cached membership (no row of
  \<open>membership_cache\<close> for the pair, in whatever spelling the request gives the ids),
  \<open>verifyMembership\<close> never returns true, and a request that the middleware resolves to
  the pair never reaches \<open>next()\<close>. \<open>getMembership\<close> returns null whenever the query runs
  (the store answers and both ids are UUIDs); \<open>verifyMembership\<close> then returns false,
  and the middleware answers a request with a Bearer header and a user id with 403.
\<close>

theorem fail_closed_membership:
  assumes "cached_membership L org usr w = None"
  shows "fst (verifyMembership L org usr w) \<noteq> Inr True \<and>
         (next_query_ok w \<and> pg_valid L org \<and> pg_valid L usr \<longrightarrow>
            fst (getMembership L org usr w) = Inr None) \<and>
         (fst (getMembership L org usr w) = Inr None \<longrightarrow>
            fst (verifyMembership L org usr w) = Inr False) \<and>
         (or_else (h_x_organization_id req) (params_organizationId req) = Some org \<and>
          org \<noteq> [] \<and> h_x_user_id req = Some usr \<longrightarrow>
            (\<forall>x. fst (authMiddleware L req w) \<noteq> Inr x) \<and>
            (fst (getMembership L org usr w) = Inr None \<and> h_authorization req = Some a \<and>
             startsWith a ''Bearer '' \<and> usr \<noteq> [] \<longrightarrow>
               fst (authMiddleware L req w) =
                 Inl (ErrorResponse 403 ''User is not a member of this organization'')))"
proof -
  note gm = getMembership_fst [of L org usr w]
  note vm = verifyMembership_fst [of L org usr w]
  have a: "fst (verifyMembership L org usr w) \<noteq> Inr True"
    using gm vm assms by (simp split: if_splits)
  have b: "next_query_ok w \<and> pg_valid L org \<and> pg_valid L usr \<longrightarrow>
             fst (getMembership L org usr w) = Inr None"
    using gm assms by simp
  have c: "fst (getMembership L org usr w) = Inr None \<longrightarrow>
             fst (verifyMembership L org usr w) = Inr False"
    using vm by simp
  have d: "\<forall>x. fst (authMiddleware L req w) \<noteq> Inr x"
    if "or_else (h_x_organization_id req) (params_organizationId req) = Some org"
       "org \<noteq> []" "h_x_user_id req = Some usr"
    using that a
    by (cases "verifyMembership L org usr w")
       (auto simp: authMiddleware_def split: option.splits if_splits sum.splits)
  have f: "fst (authMiddleware L req w) =
             Inl (ErrorResponse 403 ''User is not a member of this organization'')"
    if "or_else (h_x_organization_id req) (params_organizationId req) = Some org"
       "org \<noteq> []" "h_x_user_id req = Some usr" "fst (getMembership L org usr w) = Inr None"
       "h_authorization req = Some a" "startsWith a ''Bearer ''" "usr \<noteq> []"
    using that vm
    by (cases "verifyMembership L org usr w")
       (auto simp: authMiddleware_def startsWith_def split: option.splits if_splits sum.splits)
  show ?thesis using a b c d f by blast
qed

lemma ex_ids_valid:
  "pg_uuid ex_lib ex_T = Some ex_T" "pg_uuid ex_lib ex_U = Some ex_U"
  "pg_uuid ex_lib ex_V = Some ex_V" "pg_uuid ex_lib ex_P1 = Some ex_P1"
  "pg_uuid ex_lib ex_P2 = Some ex_P2" "pg_uuid ex_lib ex_E1 = Some ex_E1"
  "pg_uuid ex_lib ex_C1 = Some ex_C1" "pg_uuid ex_lib ex_R1 = Some ex_R1"
  by (simp_all add: ex_lib_def ex_T_def ex_U_def ex_V_def ex_P1_def ex_P2_def ex_E1_def
      ex_C1_def ex_R1_def)

lemma ex_ids_canon:
  "pg_valid ex_lib ex_T" "pg_valid ex_lib ex_U" "pg_valid ex_lib ex_V"
  "pg_valid ex_lib ex_P1" "pg_valid ex_lib ex_P2" "pg_valid ex_lib ex_E1"
  "pg_valid ex_lib ex_C1" "pg_valid ex_lib ex_R1"
  "canon ex_lib ex_T = ex_T" "canon ex_lib ex_U = ex_U" "canon ex_lib ex_V = ex_V"
  "canon ex_lib ex_P1 = ex_P1" "canon ex_lib ex_P2 = ex_P2" "canon ex_lib ex_E1 = ex_E1"
  "canon ex_lib ex_C1 = ex_C1" "canon ex_lib ex_R1 = ex_R1"
  by (simp_all add: pg_valid_def canon_def ex_ids_valid)

lemma ex_ids_distinct:
  "ex_T \<noteq> ex_U" "ex_T \<noteq> ex_V" "ex_U \<noteq> ex_V" "ex_V \<noteq> ex_U" "ex_P1 \<noteq> ex_P2" "ex_P2 \<noteq> ex_P1"
  "ex_T \<noteq> []" "ex_U \<noteq> []" "ex_V \<noteq> []" "ex_P1 \<noteq> []" "ex_P2 \<noteq> []"
  by (simp_all add: ex_T_def ex_U_def ex_V_def ex_P1_def ex_P2_def)

theorem fail_closed_membership_witness:
  "cached_membership ex_lib ex_T ex_U ex_wf_other_member = None \<and>
   next_query_ok ex_wf_other_member \<and> pg_valid ex_lib ex_T \<and> pg_valid ex_lib ex_U \<and>
   fst (getMembership ex_lib ex_T ex_U ex_wf_other_member) = Inr None \<and>
   fst (verifyMembership ex_lib ex_T ex_U ex_wf_other_member) = Inr False \<and>
   (\<forall>x. fst (authMiddleware ex_lib ex_request ex_wf_other_member) \<noteq> Inr x) \<and>
   fst (authMiddleware ex_lib ex_request ex_wf_other_member) =
     Inl (ErrorResponse 403 ''User is not a member of this organization'')"
proof -
  have h: "cached_membership ex_lib ex_T ex_U ex_wf_other_member = None"
    by (simp add: cached_membership_def ex_ids_canon ex_ids_distinct ex_wf_other_member_def
        ex_wf_empty_def mc_matches_def)
  have up: "next_query_ok ex_wf_other_member"
    by (simp add: next_query_ok_def ex_wf_other_member_def ex_wf_empty_def)
  have rq: "or_else (h_x_organization_id ex_request) (params_organizationId ex_request) = Some ex_T"
       "h_x_user_id ex_request = Some ex_U"
       "h_authorization ex_request = Some ''Bearer token''"
       "startsWith ''Bearer token'' ''Bearer ''"
    by (simp_all add: ex_request_def or_else_def truthy_def ex_ids_distinct startsWith_def)
  show ?thesis
    using fail_closed_membership [OF h, of ex_request "''Bearer token''"] h up rq
      ex_ids_canon(1,2) ex_ids_distinct(7,8)
    by simp
qed

section \<open>Creation routes\<close>

lemma getEntitlements_up:
  "faults w = [] \<Longrightarrow> pg_valid L org \<Longrightarrow>
     getEntitlements L org w = (Inr (cached_entitlements (canon L org) w), w)"
  by (simp add: getEntitlements_def run_query_up cached_entitlements_def split: list.splits)

lemma project_countByOrganization_up:
  "faults w = [] \<Longrightarrow> pg_valid L org \<Longrightarrow>
     project_countByOrganization L org w = (Inr (active_project_count (canon L org) w), w)"
  by (simp add: project_countByOrganization_def run_query_up active_project_count_def)



lemma publish_up:
  "bus_faults w = [] \<Longrightarrow>
     publish topic ev w =
       (Inr (), logger_info ''Event published'' (w\<lparr>published := published w @ [(topic, ev)]\<rparr>))"
  by (simp add: publish_def)

lemma createProject_up:
  assumes "faults w = []" "bus_faults w = []" "pg_valid L (cpi_organizationId inp)"
    "pg_valid L (cpi_createdBy inp)" "length (cpi_name inp) \<le> 255"
    "project_limit_open (canon L (cpi_organizationId inp)) w"
  shows "\<exists>p w'. createProject L e inp corr w = (Inr p, w') \<and>
           pr_id p = row_id e \<and> pr_organizationId p = canon L (cpi_organizationId inp) \<and>
           pr_createdBy p = canon L (cpi_createdBy inp) \<and> pr_status p = Active \<and>
           projects (tables w') = projects (tables w) @ [p]"
  using assms
  by (auto simp: createProject_def getEntitlements_up project_countByOrganization_up
        project_limit_open_def project_create_def run_query_up publish_up logger_info_def
        Let_def split: option.splits)






section \<open>Entitlements: a cache miss\<close>

lemma active_project_count_ten: "active_project_count ex_T ex_wf_ten_projects = 10"
  by (simp add: active_project_count_def ex_wf_ten_projects_def ex_wf_empty_def
      ex_ten_ids_def ex_project_def)

text \<open>
  Claim C1. The claim asks for default limits when \<open>entitlements_cache\<close> has no row for
  the organization. \<open>createProject\<close> skips the limit check in that case: with no cached
  entitlements and ten active projects, the eleventh project is created.
\<close>

theorem no_entitlements_no_project_limit:
  "cached_entitlements ex_T ex_wf_ten_projects = None \<and>
   active_project_count ex_T ex_wf_ten_projects = 10 \<and>
   (\<exists>p w'. createProject ex_lib ex_env ex_eleventh ex_C1 ex_wf_ten_projects = (Inr p, w') \<and>
            active_project_count ex_T w' = 11)"
proof -
  have ce: "cached_entitlements ex_T ex_wf_ten_projects = None"
    by (simp add: cached_entitlements_def ex_wf_ten_projects_def ex_wf_empty_def)
  have up: "faults ex_wf_ten_projects = []" "bus_faults ex_wf_ten_projects = []"
    by (simp_all add: ex_wf_ten_projects_def ex_wf_empty_def)
  have inp: "cpi_organizationId ex_eleventh = ex_T" "cpi_createdBy ex_eleventh = ex_U"
    "length (cpi_name ex_eleventh) \<le> 255"
    by (simp_all add: ex_eleventh_def)
  have v: "pg_valid ex_lib (cpi_organizationId ex_eleventh)"
    "pg_valid ex_lib (cpi_createdBy ex_eleventh)"
    by (simp_all add: inp ex_ids_canon)
  have lim: "project_limit_open (canon ex_lib (cpi_organizationId ex_eleventh)) ex_wf_ten_projects"
    using ce by (simp add: inp ex_ids_canon project_limit_open_def)
  from createProject_up [OF up v inp(3) lim, of ex_env ex_C1]
  obtain p w' where c:
    "createProject ex_lib ex_env ex_eleventh ex_C1 ex_wf_ten_projects = (Inr p, w')"
    "pr_organizationId p = ex_T" "pr_status p = Active"
    "projects (tables w') = projects (tables ex_wf_ten_projects) @ [p]"
    by (auto simp: inp ex_ids_canon)
  have "active_project_count ex_T w' = active_project_count ex_T ex_wf_ten_projects + 1"
    using c by (simp add: active_project_count_def)
  then show ?thesis using ce c(1) active_project_count_ten by auto
qed

section \<open>Analytics: a repeated event\<close>

text \<open>
  Claim C4. The claim asks that a second application of an event leaves the state as
  it is. The analytics consumer handles the same \<open>TaskCreated\<close> event twice by adding
  to the counter twice: \<open>tasks_created\<close> is 1 after the first delivery and 2 after the
  second.
\<close>

theorem task_created_twice_counts_twice:
  "map tm_tasks_created (task_metrics (tables (snd
     (analytics_eachMessage_task_created ex_lib ex_env (Json ex_task_created)
        ex_analytics_empty)))) = [1] \<and>
   map tm_tasks_created (task_metrics (tables (snd
     (analytics_eachMessage_task_created ex_lib ex_env (Json ex_task_created)
        (snd (analytics_eachMessage_task_created ex_lib ex_env (Json ex_task_created)
           ex_analytics_empty)))))) = [2]"
  by (simp add: analytics_eachMessage_task_created_def JSON_parse_def processTaskCreated_def
      TaskCreatedEventSchema_def BaseEventSchema_def opt_uuid_def ex_task_created_def
      ex_event_def ex_lib_def ex_T_def ex_P1_def ex_R1_def ex_V_def ex_E1_def ex_C1_def
      ex_time_def ex_env_def ex_analytics_empty_def upsertTaskMetrics_def run_query_def
      pool_query_def pg_valid_def pg_valid_opt_def canon_def canon_opt_def
      tm_conflicts_def tm_merge_def tm_in_range_def int4_def catch_log_def logger_info_def
      Let_def)

section \<open>The membership cache under events\<close>






lemma project_archive_frame:
  "membership_cache (tables (snd (project_archive L e i w))) = membership_cache (tables w) \<and>
   entitlements_cache (tables (snd (project_archive L e i w))) = entitlements_cache (tables w) \<and>
   tasks (tables (snd (project_archive L e i w))) = tasks (tables w) \<and>
   logs (snd (project_archive L e i w)) = logs w \<and>
   published (snd (project_archive L e i w)) = published w"
  by (simp add: project_archive_def run_query_def pool_query_def Let_def split: list.splits)

lemma archive_each_frame:
  "membership_cache (tables (snd (archive_each L e ps w))) = membership_cache (tables w) \<and>
   entitlements_cache (tables (snd (archive_each L e ps w))) = entitlements_cache (tables w) \<and>
   tasks (tables (snd (archive_each L e ps w))) = tasks (tables w) \<and>
   logs (snd (archive_each L e ps w)) = logs w \<and>
   published (snd (archive_each L e ps w)) = published w"
proof (induction ps arbitrary: w)
  case Nil
  then show ?case by simp
next
  case (Cons p ps)
  obtain r w1 where a: "project_archive L e (pr_id p) w = (r, w1)"
    by (cases "project_archive L e (pr_id p) w")
  have f: "membership_cache (tables w1) = membership_cache (tables w)"
    "entitlements_cache (tables w1) = entitlements_cache (tables w)"
    "tasks (tables w1) = tasks (tables w)" "logs w1 = logs w" "published w1 = published w"
    using project_archive_frame [of L e "pr_id p" w] a by simp_all
  show ?case using a f Cons.IH [of w1] by (cases r) simp_all
qed






lemma handleOrganizationDeleted_membership:
  "membership_cache (tables (snd (handleOrganizationDeleted L e ev w))) =
     membership_cache (tables w)"
proof (cases "OrganizationDeletedEventSchema L ev")
  case False
  then show ?thesis by (simp add: handleOrganizationDeleted_def catch_log_tables)
next
  case True
  show ?thesis
  proof (cases "data ev")
    case (OrganizationDeletedData org actor tm)
    obtain r1 w1 where f: "project_findByOrganization L org w = (r1, w1)"
      by (cases "project_findByOrganization L org w")
    have m1: "membership_cache (tables w1) = membership_cache (tables w)"
      using f by (auto simp: project_findByOrganization_def run_query_def pool_query_def
          split: list.splits if_splits)
    show ?thesis
    proof (cases r1)
      case (Inl x)
      then show ?thesis using True OrganizationDeletedData f m1
        by (simp add: handleOrganizationDeleted_def catch_log_tables)
    next
      case (Inr ps)
      obtain r2 w2 where a: "archive_each L e ps w1 = (r2, w2)"
        by (cases "archive_each L e ps w1")
      have m2: "membership_cache (tables w2) = membership_cache (tables w1)"
        using archive_each_frame [of L e ps w1] a by simp
      have m3: "membership_cache (tables (snd (deleteEntitlements L org w2))) =
                  membership_cache (tables w2)"
        by (simp add: deleteEntitlements_def run_query_def pool_query_def split: list.splits)
      show ?thesis
        using True OrganizationDeletedData f Inr a m1 m2 m3
        by (cases r2; cases "deleteEntitlements L org w2")
           (auto simp: handleOrganizationDeleted_def catch_log_tables logger_info_def
              split: sum.splits)
    qed
  qed (simp_all add: True handleOrganizationDeleted_def catch_log_tables)
qed





lemma ex_member_added_valid: "MemberAddedEventSchema ex_lib ex_member_added"
  by (simp add: MemberAddedEventSchema_def BaseEventSchema_def opt_uuid_def
      ex_member_added_def ex_event_def ex_lib_def ex_T_def ex_U_def ex_V_def ex_E1_def
      ex_C1_def ex_time_def)


lemma ex_member_removed_valid: "MemberRemovedEventSchema ex_lib ex_member_removed"
  by (simp add: MemberRemovedEventSchema_def BaseEventSchema_def opt_uuid_def
      ex_member_removed_def ex_event_def ex_lib_def ex_T_def ex_U_def ex_V_def ex_E1_def
      ex_C1_def ex_time_def)


section \<open>The dispatch loop\<close>

lemma consumer_run_all:
  assumes "\<And>m w. fst (f m w) = Inr ()"
  shows "consumer_run f ms w = (length ms, fold (\<lambda>m w. snd (f m w)) ms w)"
proof (induction ms arbitrary: w)
  case Nil
  then show ?case by simp
next
  case (Cons m ms)
  obtain r w1 where s: "f m w = (r, w1)" by (cases "f m w")
  have "r = Inr ()" using assms [of m w] s by simp
  then show ?case using s Cons.IH [of w1] by simp
qed

lemma wf_eachMessage_resolves: "fst (wf_eachMessage L e topic p w) = Inr ()"
  by (simp add: wf_eachMessage_def catch_log_fst)

lemma audit_eachMessage_resolves: "fst (audit_eachMessage L e p w) = Inr ()"
  by (simp add: audit_eachMessage_def catch_log_fst)

lemma wf_run_all:
  "wf_run L ms w =
     (length ms, fold (\<lambda>(e, topic, p) w. snd (wf_eachMessage L e topic p w)) ms w)"
proof -
  have "consumer_run (\<lambda>(e, topic, p). wf_eachMessage L e topic p) ms w =
          (length ms, fold (\<lambda>m w. snd ((\<lambda>(e, topic, p). wf_eachMessage L e topic p) m w)) ms w)"
    by (rule consumer_run_all) (simp add: split_def wf_eachMessage_resolves)
  moreover have "(\<lambda>m w. snd ((\<lambda>(e, topic, p). wf_eachMessage L e topic p) m w)) =
                 (\<lambda>(e, topic, p) w. snd (wf_eachMessage L e topic p w))"
    by (simp add: fun_eq_iff split_def)
  ultimately show ?thesis by (simp add: wf_run_def)
qed

lemma audit_run_all:
  "audit_run L ms w = (length ms, fold (\<lambda>(e, p) w. snd (audit_eachMessage L e p w)) ms w)"
proof -
  have "consumer_run (\<lambda>(e, p). audit_eachMessage L e p) ms w =
          (length ms, fold (\<lambda>m w. snd ((\<lambda>(e, p). audit_eachMessage L e p) m w)) ms w)"
    by (rule consumer_run_all) (simp add: split_def audit_eachMessage_resolves)
  moreover have "(\<lambda>m w. snd ((\<lambda>(e, p). audit_eachMessage L e p) m w)) =
                 (\<lambda>(e, p) w. snd (audit_eachMessage L e p w))"
    by (simp add: fun_eq_iff split_def)
  ultimately show ?thesis by (simp add: audit_run_def)
qed

lemma handleMemberAdded_published:
  "published (snd (handleMemberAdded L e ev w)) = published w"
  by (auto simp: handleMemberAdded_def upsertMembership_def run_query_def pool_query_def catch_log_def
        logger_info_def logger_error_def split: event_data.splits list.splits if_splits)

lemma handleMemberRemoved_published:
  "published (snd (handleMemberRemoved L e ev w)) = published w"
  by (auto simp: handleMemberRemoved_def deleteMembership_def run_query_def pool_query_def catch_log_def
        logger_info_def logger_error_def split: event_data.splits list.splits if_splits)

lemma handleRoleChanged_published:
  "published (snd (handleRoleChanged L e ev w)) = published w"
  by (auto simp: handleRoleChanged_def upsertMembership_def run_query_def pool_query_def catch_log_def
        logger_info_def logger_error_def split: event_data.splits list.splits if_splits)

lemma handleEntitlementsUpdated_published:
  "published (snd (handleEntitlementsUpdated L e ev w)) = published w"
  by (auto simp: handleEntitlementsUpdated_def upsertEntitlements_def run_query_def pool_query_def
        catch_log_def logger_info_def logger_error_def
        split: event_data.splits list.splits if_splits)

lemma handleOrganizationDeleted_published:
  "published (snd (handleOrganizationDeleted L e ev w)) = published w"
proof (cases "OrganizationDeletedEventSchema L ev")
  case False
  then show ?thesis by (simp add: handleOrganizationDeleted_def catch_log_published)
next
  case True
  show ?thesis
  proof (cases "data ev")
    case (OrganizationDeletedData org actor tm)
    obtain r1 w1 where f: "project_findByOrganization L org w = (r1, w1)"
      by (cases "project_findByOrganization L org w")
    have m1: "published w1 = published w"
      using f by (auto simp: project_findByOrganization_def run_query_def pool_query_def
          split: list.splits if_splits)
    show ?thesis
    proof (cases r1)
      case (Inl x)
      then show ?thesis using True OrganizationDeletedData f m1
        by (simp add: handleOrganizationDeleted_def catch_log_published)
    next
      case (Inr ps)
      obtain r2 w2 where a: "archive_each L e ps w1 = (r2, w2)"
        by (cases "archive_each L e ps w1")
      have m2: "published w2 = published w1"
        using archive_each_frame [of L e ps w1] a by simp
      have m3: "published (snd (deleteEntitlements L org w2)) = published w2"
        by (simp add: deleteEntitlements_def run_query_def pool_query_def split: list.splits)
      show ?thesis
        using True OrganizationDeletedData f Inr a m1 m2 m3
        by (cases r2; cases "deleteEntitlements L org w2")
           (auto simp: handleOrganizationDeleted_def catch_log_published logger_info_def
              split: sum.splits)
    qed
  qed (simp_all add: True handleOrganizationDeleted_def catch_log_published)
qed

lemma wf_eachMessage_published:
  "published (snd (wf_eachMessage L e topic p w)) = published w"
  by (cases p)
     (simp_all add: wf_eachMessage_def JSON_parse_def catch_log_published
        handleMemberAdded_published handleMemberRemoved_published handleRoleChanged_published
        handleEntitlementsUpdated_published handleOrganizationDeleted_published)





section \<open>Deletion of an organization\<close>

lemma archive_row_idem: "archive_row now (archive_row now p) = archive_row now p"
  by (simp add: archive_row_def)

lemma archive_row_id: "pr_id (archive_row now p) = pr_id p"
  by (simp add: archive_row_def)

lemma archived_ids_ids: "map pr_id (archived_ids now ids rows) = map pr_id rows"
  by (induction rows) (simp_all add: archived_ids_def archive_row_id)

lemma archived_ids_Nil: "archived_ids now [] rows = rows"
  by (simp add: archived_ids_def)

lemma archived_ids_append:
  "archived_ids now ids2 (archived_ids now ids1 rows) = archived_ids now (ids1 @ ids2) rows"
  by (induction rows) (auto simp: archived_ids_def archive_row_id archive_row_idem)

lemma stored_form_valid: "stored_form L i \<Longrightarrow> pg_valid L i \<and> canon L i = i"
  by (simp add: stored_form_def pg_valid_def canon_def)

text \<open>
  One \<open>archive\<close> whose query the store serves, for an id in the stored form that the
  table holds.
\<close>

lemma project_archive_served:
  assumes "pool_query w = (True, w1)" "stored_form L i"
    "i \<in> set (map pr_id (projects (tables w)))"
  shows "\<exists>p. project_archive L e i w =
           (Inr p, w1\<lparr>tables := (tables w1)\<lparr>projects :=
              archived_ids (clock e) [i] (projects (tables w1))\<rparr>\<rparr>)"
proof -
  have v: "pg_valid L i" "canon L i = i" using stored_form_valid [OF assms(2)] by simp_all
  have q: "run_query (pg_valid L i) w = (None, w1)"
    using assms(1) v(1) by (simp add: run_query_def)
  have t: "tables w1 = tables w" using pool_query_tables [of w] assms(1) by simp
  let ?rows = "map (\<lambda>p. if pr_id p = i then archive_row (clock e) p else p)
                 (projects (tables w1))"
  have r: "archived_ids (clock e) [i] (projects (tables w1)) = ?rows"
    by (simp add: archived_ids_def)
  have "map pr_id ?rows = map pr_id (projects (tables w))"
    using archived_ids_ids [of "clock e" "[i]" "projects (tables w1)"] r t by simp
  then have "i \<in> pr_id ` set ?rows"
    using assms(3) by (metis list.set_map)
  then obtain x where "x \<in> set ?rows" "pr_id x = i" by auto
  then have "filter (\<lambda>p. pr_id p = i) ?rows \<noteq> []"
    by (auto simp: filter_empty_conv)
  then obtain p ps where "filter (\<lambda>p. pr_id p = i) ?rows = p # ps"
    by (cases "filter (\<lambda>p. pr_id p = i) ?rows") auto
  moreover note r
  ultimately show ?thesis using q v(2)
    by (simp add: project_archive_def Let_def)
qed

lemma archive_each_served:
  assumes "faults w = replicate (length ps) False @ fs"
    "set (map pr_id ps) \<subseteq> set (map pr_id (projects (tables w)))"
    "list_all (\<lambda>p. stored_form L (pr_id p)) ps"
  shows "archive_each L e ps w =
           (Inr (), w\<lparr>faults := fs, tables := (tables w)\<lparr>projects :=
              archived_ids (clock e) (map pr_id ps) (projects (tables w))\<rparr>\<rparr>)"
  using assms
proof (induction ps arbitrary: w)
  case Nil
  then show ?case by (simp add: archived_ids_Nil)
next
  case (Cons p ps)
  let ?w0 = "w\<lparr>faults := replicate (length ps) False @ fs\<rparr>"
  let ?w1 = "?w0\<lparr>tables := (tables ?w0)\<lparr>projects :=
               archived_ids (clock e) [pr_id p] (projects (tables ?w0))\<rparr>\<rparr>"
  have pq: "pool_query w = (True, ?w0)"
    using Cons.prems(1) by (simp add: pool_query_def)
  have sf: "stored_form L (pr_id p)" using Cons.prems(3) by simp
  have inn: "pr_id p \<in> set (map pr_id (projects (tables w)))" using Cons.prems(2) by simp
  from project_archive_served [OF pq sf inn, of e]
  obtain q where a: "project_archive L e (pr_id p) w = (Inr q, ?w1)" by auto
  have f: "faults ?w1 = replicate (length ps) False @ fs" by simp
  have s: "set (map pr_id ps) \<subseteq> set (map pr_id (projects (tables ?w1)))"
    using Cons.prems(2) by (simp add: archived_ids_ids)
  have l: "list_all (\<lambda>p. stored_form L (pr_id p)) ps" using Cons.prems(3) by simp
  show ?case
    using a Cons.IH [OF f s l]
    by (simp add: archived_ids_append)
qed

lemma archive_each_up:
  assumes "faults w = []" "set (map pr_id ps) \<subseteq> set (map pr_id (projects (tables w)))"
    "list_all (\<lambda>p. stored_form L (pr_id p)) ps"
  shows "archive_each L e ps w =
           (Inr (), w\<lparr>tables := (tables w)\<lparr>projects :=
              archived_ids (clock e) (map pr_id ps) (projects (tables w))\<rparr>\<rparr>)"
  using assms
proof (induction ps arbitrary: w)
  case Nil
  then show ?case by (simp add: archived_ids_Nil)
next
  case (Cons p ps)
  let ?w1 = "w\<lparr>tables := (tables w)\<lparr>projects :=
               archived_ids (clock e) [pr_id p] (projects (tables w))\<rparr>\<rparr>"
  have pq: "pool_query w = (True, w)" using Cons.prems(1) by (simp add: pool_query_def)
  have sf: "stored_form L (pr_id p)" using Cons.prems(3) by simp
  have inn: "pr_id p \<in> set (map pr_id (projects (tables w)))" using Cons.prems(2) by simp
  from project_archive_served [OF pq sf inn, of e]
  obtain q where a: "project_archive L e (pr_id p) w = (Inr q, ?w1)" by auto
  have f: "faults ?w1 = []" using Cons.prems(1) by simp
  have s: "set (map pr_id ps) \<subseteq> set (map pr_id (projects (tables ?w1)))"
    using Cons.prems(2) by (simp add: archived_ids_ids)
  have l: "list_all (\<lambda>p. stored_form L (pr_id p)) ps" using Cons.prems(3) by simp
  show ?case
    using a Cons.IH [OF f s l]
    by (simp add: archived_ids_append)
qed

lemma archive_each_append:
  "archive_each L e (xs @ ys) w =
     (case archive_each L e xs w of
        (Inl x, w1) \<Rightarrow> (Inl x, w1)
      | (Inr _, w1) \<Rightarrow> archive_each L e ys w1)"
proof (induction xs arbitrary: w)
  case Nil
  then show ?case by simp
next
  case (Cons a xs)
  obtain r w1 where s: "project_archive L e (pr_id a) w = (r, w1)"
    by (cases "project_archive L e (pr_id a) w")
  show ?case using s Cons.IH [of w1] by (cases r) simp_all
qed

lemma archive_each_fails_at:
  assumes "faults w = replicate k False @ True # fs" "k < length ps"
    "set (map pr_id ps) \<subseteq> set (map pr_id (projects (tables w)))"
    "list_all (\<lambda>p. stored_form L (pr_id p)) ps"
  shows "archive_each L e ps w =
           (Inl StoreUnavailable, w\<lparr>faults := fs, tables := (tables w)\<lparr>projects :=
              archived_ids (clock e) (map pr_id (take k ps)) (projects (tables w))\<rparr>\<rparr>)"
proof -
  let ?w1 = "w\<lparr>faults := True # fs, tables := (tables w)\<lparr>projects :=
              archived_ids (clock e) (map pr_id (take k ps)) (projects (tables w))\<rparr>\<rparr>"
  have l: "length (take k ps) = k" using assms(2) by simp
  have s: "set (map pr_id (take k ps)) \<subseteq> set (map pr_id (projects (tables w)))"
    using assms(3) by (auto dest: in_set_takeD)
  have t: "list_all (\<lambda>p. stored_form L (pr_id p)) (take k ps)"
    using assms(4) by (auto simp: list_all_iff dest: in_set_takeD)
  have a: "archive_each L e (take k ps) w = (Inr (), ?w1)"
    using archive_each_served [of w "take k ps" "True # fs" L e] assms(1) l s t by simp
  obtain p rest where d: "drop k ps = p # rest"
    using assms(2) by (cases "drop k ps") auto
  have b: "archive_each L e (p # rest) ?w1 =
             (Inl StoreUnavailable, ?w1\<lparr>faults := fs\<rparr>)"
    by (simp add: project_archive_def run_query_def pool_query_def)
  have "archive_each L e ps w = archive_each L e (take k ps @ drop k ps) w" by simp
  also have "\<dots> = archive_each L e (p # rest) ?w1"
    using a d by (simp only: archive_each_append) simp
  finally show ?thesis using b by simp
qed

lemma found_projects_ids:
  "set (map pr_id (found_projects org w)) \<subseteq> set (map pr_id (projects (tables w)))"
  by (auto simp: found_projects_def)

lemma found_projects_stored:
  "project_ids_stored L w \<Longrightarrow> list_all (\<lambda>p. stored_form L (pr_id p)) (found_projects org w)"
  by (auto simp: project_ids_stored_def found_projects_def list_all_iff)

lemma project_findByOrganization_served:
  "pool_query w = (True, w1) \<Longrightarrow> pg_valid L org \<Longrightarrow>
     project_findByOrganization L org w = (Inr (found_projects (canon L org) w), w1)"
  using pool_query_tables [of w]
  by (simp add: project_findByOrganization_def found_projects_def run_query_def)

lemma organization_deleted_up:
  assumes "OrganizationDeletedEventSchema L ev" "data ev = OrganizationDeletedData T actor tm"
    "pg_valid L T" "project_ids_stored L w" "faults w = []"
  shows "wf_eachMessage L e ''organization.deleted'' (Json ev) w =
           (Inr (), logger_info ''Organization deleted - projects archived''
              (w\<lparr>tables := (tables w)
                 \<lparr>projects := archived_ids (clock e) (map pr_id (found_projects (canon L T) w))
                    (projects (tables w)),
                  entitlements_cache := filter (\<lambda>r. er_organization_id r \<noteq> canon L T)
                    (entitlements_cache (tables w))\<rparr>\<rparr>))"
proof -
  let ?w2 = "w\<lparr>tables := (tables w)\<lparr>projects :=
               archived_ids (clock e) (map pr_id (found_projects (canon L T) w))
                 (projects (tables w))\<rparr>\<rparr>"
  have pq: "pool_query w = (True, w)" using assms(5) by (simp add: pool_query_def)
  have f: "project_findByOrganization L T w = (Inr (found_projects (canon L T) w), w)"
    using project_findByOrganization_served [OF pq assms(3)] .
  have a: "archive_each L e (found_projects (canon L T) w) w = (Inr (), ?w2)"
    using archive_each_up [OF assms(5) found_projects_ids found_projects_stored [OF assms(4)]] .
  have "faults ?w2 = []" using assms(5) by simp
  then have d: "deleteEntitlements L T ?w2 =
      (Inr (), ?w2\<lparr>tables := (tables ?w2)\<lparr>entitlements_cache :=
         filter (\<lambda>r. er_organization_id r \<noteq> canon L T) (entitlements_cache (tables ?w2))\<rparr>\<rparr>)"
    using assms(3) by (simp add: deleteEntitlements_def run_query_up)
  show ?thesis
    using assms(1,2) f a d
    by (simp add: wf_eachMessage_def JSON_parse_def handleOrganizationDeleted_def
        catch_log_def)
qed

lemma organization_deleted_step_fails:
  assumes "OrganizationDeletedEventSchema L ev" "data ev = OrganizationDeletedData T actor tm"
    "pg_valid L T" "project_ids_stored L w"
    "faults w = False # replicate k False @ True # fs"
    "k \<le> length (found_projects (canon L T) w)"
  shows "wf_eachMessage L e ''organization.deleted'' (Json ev) w =
           (Inr (), logger_error ''Failed to handle OrganizationDeleted event''
              (w\<lparr>faults := fs, tables := (tables w)\<lparr>projects :=
                 archived_ids (clock e) (map pr_id (take k (found_projects (canon L T) w)))
                   (projects (tables w))\<rparr>\<rparr>))"
proof -
  let ?ps = "found_projects (canon L T) w"
  let ?w1 = "w\<lparr>faults := replicate k False @ True # fs\<rparr>"
  let ?rows = "archived_ids (clock e) (map pr_id (take k ?ps)) (projects (tables w))"
  have pq: "pool_query w = (True, ?w1)" using assms(5) by (simp add: pool_query_def)
  have f: "project_findByOrganization L T w = (Inr ?ps, ?w1)"
    using project_findByOrganization_served [OF pq assms(3)] .
  have ids: "set (map pr_id ?ps) \<subseteq> set (map pr_id (projects (tables ?w1)))"
    using found_projects_ids [of "canon L T" w] by simp
  note st = found_projects_stored [OF assms(4), of "canon L T"]
  have body: "(case archive_each L e ?ps ?w1 of
                (Inl x, w2) \<Rightarrow> (Inl x, w2)
              | (Inr _, w2) \<Rightarrow>
                  (case deleteEntitlements L T w2 of
                     (Inl x, w3) \<Rightarrow> (Inl x, w3)
                   | (Inr _, w3) \<Rightarrow>
                       (Inr (), logger_info ''Organization deleted - projects archived'' w3))) =
              (Inl StoreUnavailable, w\<lparr>faults := fs, tables := (tables w)\<lparr>projects := ?rows\<rparr>\<rparr>)"
  proof (cases "k < length ?ps")
    case True
    have "faults ?w1 = replicate k False @ True # fs" by simp
    from archive_each_fails_at [OF this True ids st, of e] show ?thesis by simp
  next
    case False
    then have k: "k = length ?ps" using assms(6) by simp
    have "faults ?w1 = replicate (length ?ps) False @ True # fs" using k by simp
    from archive_each_served [OF this ids st, of e]
    have a: "archive_each L e ?ps ?w1 =
               (Inr (), w\<lparr>faults := True # fs, tables := (tables w)\<lparr>projects :=
                  archived_ids (clock e) (map pr_id ?ps) (projects (tables w))\<rparr>\<rparr>)"
      by simp
    show ?thesis using a k by (simp add: deleteEntitlements_def run_query_def pool_query_def)
  qed
  show ?thesis
    using assms(1,2) f body
    by (simp add: wf_eachMessage_def JSON_parse_def handleOrganizationDeleted_def
        catch_log_def)
qed

text \<open>
  Claim C6, as the code has it. The deletion of a tenant is not a saga: the workflow
  consumer archives the tenant's projects one after the other and then deletes the
  cached entitlements. For a tenant id that the database reads as a UUID and a
  \<open>projects\<close> table whose ids are in the stored form, when the store rejects the query
  of step \<open>k + 1\<close> (the first query lists the projects and is served, as are the next
  \<open>k\<close>), the \<open>k\<close> projects archived so far stay archived, the later steps never run,
  the entitlements and the other tables are as before, and the handler logs the error
  and resolves. Nothing is compensated and no saga state is kept.
\<close>

theorem organization_deleted_no_compensation:
  assumes "OrganizationDeletedEventSchema L ev" "data ev = OrganizationDeletedData T actor tm"
    "pg_valid L T" "project_ids_stored L w"
    "faults w = False # replicate k False @ True # fs"
    "k \<le> length (found_projects (canon L T) w)"
  shows "wf_eachMessage L e ''organization.deleted'' (Json ev) w =
           (Inr (), logger_error ''Failed to handle OrganizationDeleted event''
              (w\<lparr>faults := fs, tables := (tables w)\<lparr>projects :=
                 archived_ids (clock e) (map pr_id (take k (found_projects (canon L T) w)))
                   (projects (tables w))\<rparr>\<rparr>))"
  using assms by (rule organization_deleted_step_fails)

lemma ex_organization_deleted_valid:
  "OrganizationDeletedEventSchema ex_lib ex_organization_deleted"
  by (simp add: OrganizationDeletedEventSchema_def BaseEventSchema_def opt_uuid_def
      ex_organization_deleted_def ex_event_def ex_lib_def ex_T_def ex_V_def ex_E1_def
      ex_C1_def ex_time_def)

lemma ex_organization_deleted_data:
  "data ex_organization_deleted = OrganizationDeletedData ex_T ex_V ex_time"
  by (simp add: ex_organization_deleted_def ex_event_def)

lemma ex_found_projects:
  "found_projects ex_T ex_wf_tenant_third_query_fails = [ex_project ex_P2 2, ex_project ex_P1 1]"
  by (simp add: found_projects_def ex_wf_tenant_third_query_fails_def ex_wf_tenant_def
      ex_project_def)

lemma ex_tenant_ids_stored:
  "project_ids_stored ex_lib ex_wf_tenant"
  "project_ids_stored ex_lib ex_wf_tenant_third_query_fails"
  by (simp_all add: project_ids_stored_def stored_form_def ex_lib_def
      ex_wf_tenant_third_query_fails_def ex_wf_tenant_def ex_project_def ex_P1_def ex_P2_def)

theorem organization_deleted_no_compensation_witness:
  "OrganizationDeletedEventSchema ex_lib ex_organization_deleted \<and>
   data ex_organization_deleted = OrganizationDeletedData ex_T ex_V ex_time \<and>
   pg_valid ex_lib ex_T \<and> project_ids_stored ex_lib ex_wf_tenant_third_query_fails \<and>
   faults ex_wf_tenant_third_query_fails = False # replicate 1 False @ True # [] \<and>
   1 \<le> length (found_projects (canon ex_lib ex_T) ex_wf_tenant_third_query_fails) \<and>
   wf_eachMessage ex_lib ex_env ''organization.deleted'' (Json ex_organization_deleted)
     ex_wf_tenant_third_query_fails =
     (Inr (), logger_error ''Failed to handle OrganizationDeleted event''
        (ex_wf_tenant_third_query_fails
           \<lparr>faults := [], tables := (tables ex_wf_tenant_third_query_fails)\<lparr>projects :=
              archived_ids (clock ex_env)
                (map pr_id (take 1
                   (found_projects (canon ex_lib ex_T) ex_wf_tenant_third_query_fails)))
                (projects (tables ex_wf_tenant_third_query_fails))\<rparr>\<rparr>))"
proof -
  have f: "faults ex_wf_tenant_third_query_fails = False # replicate 1 False @ True # []"
    by (simp add: ex_wf_tenant_third_query_fails_def)
  have k: "1 \<le> length (found_projects (canon ex_lib ex_T) ex_wf_tenant_third_query_fails)"
    by (simp add: ex_found_projects ex_ids_canon)
  show ?thesis
    using organization_deleted_no_compensation [OF ex_organization_deleted_valid
        ex_organization_deleted_data ex_ids_canon(1) ex_tenant_ids_stored(2) f k, of ex_env]
      ex_organization_deleted_valid ex_organization_deleted_data ex_ids_canon(1)
      ex_tenant_ids_stored(2) f k
    by simp
qed

text \<open>
  The claim as stated (completed steps are undone in reverse order and the saga ends in
  \<open>Failed\<close>) fails on a tenant with two projects when the store rejects the third
  query: the project archived first stays archived, the other one stays active, the
  cached entitlements stay, and the message is acknowledged with an error line as the
  only record.
\<close>

theorem organization_deleted_not_undone_counterexample:
  "fst (wf_run ex_lib [(ex_env, ''organization.deleted'', Json ex_organization_deleted)]
     ex_wf_tenant_third_query_fails) = 1 \<and>
   map (\<lambda>p. (pr_id p, pr_status p)) (projects (tables (snd
     (wf_run ex_lib [(ex_env, ''organization.deleted'', Json ex_organization_deleted)]
        ex_wf_tenant_third_query_fails)))) = [(ex_P1, Active), (ex_P2, Archived)] \<and>
   entitlements_cache (tables (snd
     (wf_run ex_lib [(ex_env, ''organization.deleted'', Json ex_organization_deleted)]
        ex_wf_tenant_third_query_fails))) = entitlements_cache (tables ex_wf_tenant) \<and>
   logs (snd
     (wf_run ex_lib [(ex_env, ''organization.deleted'', Json ex_organization_deleted)]
        ex_wf_tenant_third_query_fails)) =
     [(Err, ''Failed to handle OrganizationDeleted event'')]"
proof -
  have f: "faults ex_wf_tenant_third_query_fails = False # replicate (Suc 0) False @ True # []"
    by (simp add: ex_wf_tenant_third_query_fails_def)
  have k: "Suc 0 \<le> length (found_projects (canon ex_lib ex_T) ex_wf_tenant_third_query_fails)"
    by (simp add: ex_found_projects ex_ids_canon)
  have p: "ex_P1 \<noteq> ex_P2" by (simp add: ex_P1_def ex_P2_def)
  have ids: "map pr_id (take (Suc 0)
               (found_projects (canon ex_lib ex_T) ex_wf_tenant_third_query_fails)) = [ex_P2]"
    by (simp add: ex_found_projects ex_project_def ex_ids_canon)
  have r: "wf_eachMessage ex_lib ex_env ''organization.deleted''
             (Json ex_organization_deleted) ex_wf_tenant_third_query_fails =
           (Inr (), logger_error ''Failed to handle OrganizationDeleted event''
              (ex_wf_tenant_third_query_fails
                 \<lparr>faults := [], tables := (tables ex_wf_tenant_third_query_fails)\<lparr>projects :=
                    archived_ids (clock ex_env) [ex_P2]
                      (projects (tables ex_wf_tenant_third_query_fails))\<rparr>\<rparr>))"
    using organization_deleted_step_fails [OF ex_organization_deleted_valid
        ex_organization_deleted_data ex_ids_canon(1) ex_tenant_ids_stored(2) f k, of ex_env]
    by (simp only: ids)
  have run: "wf_run ex_lib [(ex_env, ''organization.deleted'', Json ex_organization_deleted)]
               ex_wf_tenant_third_query_fails =
             (1, logger_error ''Failed to handle OrganizationDeleted event''
              (ex_wf_tenant_third_query_fails
                 \<lparr>faults := [], tables := (tables ex_wf_tenant_third_query_fails)\<lparr>projects :=
                    archived_ids (clock ex_env) [ex_P2]
                      (projects (tables ex_wf_tenant_third_query_fails))\<rparr>\<rparr>))"
    by (simp add: wf_run_all r)
  show ?thesis
    unfolding run using p
    by (simp add: logger_error_def archived_ids_def
        ex_wf_tenant_third_query_fails_def ex_wf_tenant_def ex_project_def archive_row_def)
qed

lemma softDelete_each_published:
  "published (snd (softDelete_each L e ms w)) = published w"
proof (induction ms arbitrary: w)
  case Nil
  then show ?case by simp
next
  case (Cons m ms)
  obtain r w1 where s: "membership_softDelete L e (ms_id m) w = (r, w1)"
    by (cases "membership_softDelete L e (ms_id m) w")
  have "published w1 = published w"
    using s run_query_frame [of "pg_valid L (ms_id m)" w]
    by (auto simp: membership_softDelete_def split: prod.splits option.splits)
  then show ?case using s Cons.IH [of w1] by (cases r) simp_all
qed

lemma publish_published:
  "published (snd (publish topic ev w)) = published w \<or>
   published (snd (publish topic ev w)) = published w @ [(topic, ev)]"
  by (simp add: publish_def logger_info_def logger_error_def split: list.splits)

lemma deleteOrganization_published:
  "published (snd (deleteOrganization L e T deletedBy corr w)) = published w \<or>
   (\<exists>ev. published (snd (deleteOrganization L e T deletedBy corr w)) =
           published w @ [(''organization.deleted'', ev)])"
proof -
  obtain r1 w1 where a: "organization_softDelete L e T deletedBy w = (r1, w1)"
    by (cases "organization_softDelete L e T deletedBy w")
  have p1: "published w1 = published w"
    using a run_query_frame [of "pg_valid L T" w]
    by (auto simp: organization_softDelete_def split: prod.splits option.splits)
  obtain r2 w2 where b: "membership_findByOrganization L T w1 = (r2, w2)"
    by (cases "membership_findByOrganization L T w1")
  have p2: "published w2 = published w1"
    using b run_query_frame [of "pg_valid L T" w1]
    by (auto simp: membership_findByOrganization_def split: prod.splits option.splits)
  show ?thesis
  proof (cases r1)
    case (Inl x)
    then show ?thesis using a p1 by (simp add: deleteOrganization_def)
  next
    case (Inr u)
    note r1 = this
    show ?thesis
    proof (cases r2)
      case (Inl x)
      then show ?thesis using a r1 b p1 p2 by (simp add: deleteOrganization_def)
    next
      case (Inr ms)
      obtain r3 w3 where c: "softDelete_each L e ms w2 = (r3, w3)"
        by (cases "softDelete_each L e ms w2")
      have p3: "published w3 = published w"
        using softDelete_each_published [of L e ms w2] c p1 p2 by simp
      show ?thesis
      proof (cases r3)
        case (Inl x)
        then show ?thesis using a r1 b Inr c p3 by (simp add: deleteOrganization_def)
      next
        case (Inr u3)
        have d: "deleteOrganization L e T deletedBy corr w =
                   publish ''organization.deleted''
                     (createEvent L e ''OrganizationDeleted'' ''v1''
                        (OrganizationDeletedData T deletedBy (toISOString L (clock e)))
                        ''organization-service''
                        (case corr of
                           None \<Rightarrow> corr_id e
                         | Some c \<Rightarrow> if c = [] then corr_id e else c)
                        (Some deletedBy) (Some T)) w3"
          using a r1 b \<open>r2 = Inr ms\<close> c Inr by (simp add: deleteOrganization_def)
        show ?thesis
          unfolding d using publish_published [of "''organization.deleted''" _ w3] p3
          by auto
      qed
    qed
  qed
qed

lemma catch_log_faults: "faults (snd (catch_log msg r)) = faults (snd r)"
  by (cases r) (auto simp: catch_log_def logger_error_def split: sum.splits)

lemma project_archive_faults_up:
  "faults w = [] \<Longrightarrow> faults (snd (project_archive L e i w)) = []"
  by (simp add: project_archive_def run_query_up Let_def split: list.splits)

lemma archive_each_faults_up:
  "faults w = [] \<Longrightarrow> faults (snd (archive_each L e ps w)) = []"
proof (induction ps arbitrary: w)
  case Nil
  then show ?case by simp
next
  case (Cons p ps)
  obtain r w1 where a: "project_archive L e (pr_id p) w = (r, w1)"
    by (cases "project_archive L e (pr_id p) w")
  have f: "faults w1 = []" using project_archive_faults_up [OF Cons.prems, of L e "pr_id p"] a by simp
  show ?case using a f Cons.IH [OF f] by (cases r) simp_all
qed

lemma handleOrganizationDeleted_faults_up:
  assumes "faults w = []"
  shows "faults (snd (handleOrganizationDeleted L e ev w)) = []"
proof (cases "OrganizationDeletedEventSchema L ev")
  case False
  then show ?thesis using assms by (simp add: handleOrganizationDeleted_def catch_log_faults)
next
  case True
  show ?thesis
  proof (cases "data ev")
    case (OrganizationDeletedData org actor tm)
    obtain r1 w1 where f: "project_findByOrganization L org w = (r1, w1)"
      by (cases "project_findByOrganization L org w")
    have m1: "faults w1 = []"
      using f assms by (auto simp: project_findByOrganization_def run_query_up split: if_splits)
    show ?thesis
    proof (cases r1)
      case (Inl x)
      then show ?thesis using True OrganizationDeletedData f m1
        by (simp add: handleOrganizationDeleted_def catch_log_faults)
    next
      case (Inr ps)
      obtain r2 w2 where a: "archive_each L e ps w1 = (r2, w2)"
        by (cases "archive_each L e ps w1")
      have m2: "faults w2 = []"
        using archive_each_faults_up [OF m1, of L e ps] a by simp
      have m3: "faults (snd (deleteEntitlements L org w2)) = []"
        using m2 by (simp add: deleteEntitlements_def run_query_up)
      show ?thesis
        using True OrganizationDeletedData f Inr a m2 m3
        by (cases r2; cases "deleteEntitlements L org w2")
           (auto simp: handleOrganizationDeleted_def catch_log_faults logger_info_def
              split: sum.splits)
    qed
  qed (simp_all add: True assms handleOrganizationDeleted_def catch_log_faults)
qed

lemma getMembership_up:
  "faults w = [] \<Longrightarrow>
     fst (getMembership L org usr w) =
       (if pg_valid L org \<and> pg_valid L usr
        then Inr (case filter (mc_matches (canon L org) (canon L usr))
                         (membership_cache (tables w)) of
                    [] \<Rightarrow> None | r # _ \<Rightarrow> Some r)
        else Inl DatabaseError)"
  by (simp add: getMembership_def run_query_up split: list.splits)

text \<open>
  Claim C10. Handling a valid \<open>OrganizationDeleted\<close> event for tenant \<open>T\<close> leaves the
  membership cache as it is, under every fault schedule. On an available store, for a
  tenant id that the database reads as a UUID and a \<open>projects\<close> table whose ids are in
  the stored form, it deletes the cached entitlements of \<open>T\<close> and of no other tenant;
  on an available store every \<open>getMembership(T, U)\<close> returns afterwards what it
  returned before. \<open>deleteOrganization\<close> publishes nothing, or the one event on
  \<open>organization.deleted\<close>: no \<open>MemberRemoved\<close> event for the memberships it
  soft-deletes.
\<close>

theorem organization_deleted_keeps_memberships:
  assumes "OrganizationDeletedEventSchema L ev" "data ev = OrganizationDeletedData T actor tm"
  shows "membership_cache (tables (snd
           (wf_eachMessage L e ''organization.deleted'' (Json ev) w))) =
           membership_cache (tables w) \<and>
         (faults w = [] \<and> pg_valid L T \<and> project_ids_stored L w \<longrightarrow>
            cached_entitlements (canon L T) (snd
              (wf_eachMessage L e ''organization.deleted'' (Json ev) w)) = None \<and>
            entitlements_cache (tables (snd
              (wf_eachMessage L e ''organization.deleted'' (Json ev) w))) =
              filter (\<lambda>r. er_organization_id r \<noteq> canon L T) (entitlements_cache (tables w))) \<and>
         (faults w = [] \<longrightarrow>
            fst (getMembership L T U (snd
              (wf_eachMessage L e ''organization.deleted'' (Json ev) w))) =
              fst (getMembership L T U w)) \<and>
         (published (snd (deleteOrganization L e' T deletedBy corr wo)) = published wo \<or>
          (\<exists>ev'. published (snd (deleteOrganization L e' T deletedBy corr wo)) =
                  published wo @ [(''organization.deleted'', ev')]))"
proof -
  let ?after = "snd (wf_eachMessage L e ''organization.deleted'' (Json ev) w)"
  have m: "membership_cache (tables ?after) = membership_cache (tables w)"
    using handleOrganizationDeleted_membership [of L e ev w]
    by (simp add: wf_eachMessage_def JSON_parse_def catch_log_tables)
  have u: "cached_entitlements (canon L T) ?after = None \<and>
           entitlements_cache (tables ?after) =
             filter (\<lambda>r. er_organization_id r \<noteq> canon L T) (entitlements_cache (tables w))"
    if up: "faults w = []" and v: "pg_valid L T" and st: "project_ids_stored L w"
  proof -
    note eq = organization_deleted_up [OF assms v st up, of e]
    show ?thesis by (simp add: eq logger_info_def cached_entitlements_def)
  qed
  have g: "fst (getMembership L T U ?after) = fst (getMembership L T U w)"
    if up: "faults w = []"
  proof -
    have "faults ?after = []"
      using handleOrganizationDeleted_faults_up [OF up, of L e ev]
      by (simp add: wf_eachMessage_def JSON_parse_def catch_log_faults)
    then have "next_query_ok ?after = next_query_ok w"
      using up by (simp add: next_query_ok_def)
    moreover have "cached_membership L T U ?after = cached_membership L T U w"
      using m by (simp add: cached_membership_def)
    ultimately show ?thesis by (simp add: getMembership_fst)
  qed
  show ?thesis using m u g deleteOrganization_published [of L e' T deletedBy corr wo] by blast
qed

theorem organization_deleted_keeps_memberships_witness:
  "OrganizationDeletedEventSchema ex_lib ex_organization_deleted \<and>
   data ex_organization_deleted = OrganizationDeletedData ex_T ex_V ex_time \<and>
   faults ex_wf_tenant = [] \<and> pg_valid ex_lib ex_T \<and> project_ids_stored ex_lib ex_wf_tenant \<and>
   membership_cache (tables (snd
     (wf_eachMessage ex_lib ex_env ''organization.deleted'' (Json ex_organization_deleted)
        ex_wf_tenant))) = membership_cache (tables ex_wf_tenant) \<and>
   cached_entitlements ex_T ex_wf_tenant \<noteq> None \<and>
   cached_entitlements ex_T (snd
     (wf_eachMessage ex_lib ex_env ''organization.deleted'' (Json ex_organization_deleted)
        ex_wf_tenant)) = None \<and>
   entitlements_cache (tables (snd
     (wf_eachMessage ex_lib ex_env ''organization.deleted'' (Json ex_organization_deleted)
        ex_wf_tenant))) = [] \<and>
   fst (getMembership ex_lib ex_T ex_U (snd
     (wf_eachMessage ex_lib ex_env ''organization.deleted'' (Json ex_organization_deleted)
        ex_wf_tenant))) = fst (getMembership ex_lib ex_T ex_U ex_wf_tenant) \<and>
   fst (getMembership ex_lib ex_T ex_U ex_wf_tenant) =
     Inr (Some \<lparr>mc_organizationId = ex_T, mc_userId = ex_U, mc_role = ''admin'',
                mc_cachedAt = 5\<rparr>) \<and>
   map fst (published (snd (deleteOrganization ex_lib ex_env ex_T ex_V None ex_org_tenant))) =
     [''organization.deleted''] \<and>
   map ms_deletedAt (memberships (tables (snd
     (deleteOrganization ex_lib ex_env ex_T ex_V None ex_org_tenant)))) = [Some 100, Some 100] \<and>
   (published (snd (deleteOrganization ex_lib ex_env ex_T ex_V None ex_org_tenant)) =
      published ex_org_tenant \<or>
    (\<exists>ev'. published (snd (deleteOrganization ex_lib ex_env ex_T ex_V None ex_org_tenant)) =
            published ex_org_tenant @ [(''organization.deleted'', ev')]))"
proof -
  have up: "faults ex_wf_tenant = []" by (simp add: ex_wf_tenant_def)
  have c: "cached_entitlements ex_T ex_wf_tenant \<noteq> None"
    by (simp add: cached_entitlements_def ex_wf_tenant_def)
  have ec: "filter (\<lambda>r. er_organization_id r \<noteq> ex_T) (entitlements_cache (tables ex_wf_tenant)) = []"
    by (simp add: ex_wf_tenant_def)
  have g: "fst (getMembership ex_lib ex_T ex_U ex_wf_tenant) =
     Inr (Some \<lparr>mc_organizationId = ex_T, mc_userId = ex_U, mc_role = ''admin'',
                mc_cachedAt = 5\<rparr>)"
    unfolding getMembership_up [OF up] using ex_ids_canon
    by (simp add: ex_wf_tenant_def mc_matches_def)
  have o: "deleteOrganization ex_lib ex_env ex_T ex_V None ex_org_tenant =
      publish ''organization.deleted''
         (createEvent ex_lib ex_env ''OrganizationDeleted'' ''v1''
            (OrganizationDeletedData ex_T ex_V (toISOString ex_lib (clock ex_env)))
            ''organization-service'' (corr_id ex_env) (Some ex_V) (Some ex_T))
         (ex_org_tenant\<lparr>tables := (tables ex_org_tenant)
            \<lparr>organizations := map (\<lambda>r. r\<lparr>og_deletedAt := Some 100\<rparr>)
               (organizations (tables ex_org_tenant)),
             memberships := map (\<lambda>r. r\<lparr>ms_deletedAt := Some 100\<rparr>)
               (memberships (tables ex_org_tenant))\<rparr>\<rparr>)"
    by (simp add: deleteOrganization_def organization_softDelete_def
        membership_findByOrganization_def membership_softDelete_def run_query_def
        pool_query_def pg_valid_def canon_def ex_lib_def
        ex_org_tenant_def ex_env_def ex_T_def ex_P1_def ex_P2_def)
  have o': "map fst (published (snd
              (deleteOrganization ex_lib ex_env ex_T ex_V None ex_org_tenant))) =
              [''organization.deleted'']"
    "map ms_deletedAt (memberships (tables (snd
       (deleteOrganization ex_lib ex_env ex_T ex_V None ex_org_tenant)))) =
       [Some 100, Some 100]"
    unfolding o by (simp_all add: publish_def logger_info_def ex_org_tenant_def)
  show ?thesis
    using organization_deleted_keeps_memberships [OF ex_organization_deleted_valid
        ex_organization_deleted_data,
        where e = ex_env and w = ex_wf_tenant and U = ex_U and e' = ex_env and
        deletedBy = ex_V and corr = None and wo = ex_org_tenant]
      ex_organization_deleted_valid ex_organization_deleted_data up c g o' ec
      ex_ids_canon ex_tenant_ids_stored(1)
    by simp
qed

section \<open>A store that is unavailable\<close>

lemma wf_first_query_fails_tables:
  assumes "faults w = True # fs"
  shows "tables (snd (wf_eachMessage L e topic p w)) = tables w"
proof (cases p)
  case Unparseable
  then show ?thesis by (simp add: wf_eachMessage_def JSON_parse_def catch_log_tables)
next
  case (Json ev)
  have a: "tables (snd (handleMemberAdded L e ev w)) = tables w"
    using assms
    by (auto simp: handleMemberAdded_def upsertMembership_def run_query_down catch_log_def
          logger_error_def split: event_data.splits)
  have b: "tables (snd (handleMemberRemoved L e ev w)) = tables w"
    using assms
    by (auto simp: handleMemberRemoved_def deleteMembership_def run_query_down catch_log_def
          logger_error_def split: event_data.splits)
  have c: "tables (snd (handleRoleChanged L e ev w)) = tables w"
    using assms
    by (auto simp: handleRoleChanged_def upsertMembership_def run_query_down catch_log_def
          logger_error_def split: event_data.splits)
  have d: "tables (snd (handleEntitlementsUpdated L e ev w)) = tables w"
    using assms
    by (auto simp: handleEntitlementsUpdated_def upsertEntitlements_def run_query_down
          catch_log_def logger_error_def split: event_data.splits)
  have f: "tables (snd (handleOrganizationDeleted L e ev w)) = tables w"
    using assms
    by (auto simp: handleOrganizationDeleted_def project_findByOrganization_def
          run_query_down catch_log_def logger_error_def split: event_data.splits)
  show ?thesis using Json a b c d f
    by (simp add: wf_eachMessage_def JSON_parse_def catch_log_tables)
qed

lemma member_added_store_down:
  assumes "faults w = True # fs" "MemberAddedEventSchema L ev"
  shows "wf_eachMessage L e ''organization.member.added'' (Json ev) w =
           (Inr (), logger_error ''Failed to handle MemberAdded event'' (w\<lparr>faults := fs\<rparr>))"
  using assms
  by (cases "data ev")
     (simp_all add: wf_eachMessage_def JSON_parse_def handleMemberAdded_def
        upsertMembership_def run_query_down catch_log_def MemberAddedEventSchema_def)

lemma member_removed_store_down:
  assumes "faults w = True # fs" "MemberRemovedEventSchema L ev"
  shows "wf_eachMessage L e ''organization.member.removed'' (Json ev) w =
           (Inr (), logger_error ''Failed to handle MemberRemoved event'' (w\<lparr>faults := fs\<rparr>))"
  using assms
  by (cases "data ev")
     (simp_all add: wf_eachMessage_def JSON_parse_def handleMemberRemoved_def
        deleteMembership_def run_query_down catch_log_def MemberRemovedEventSchema_def)

lemma role_changed_store_down:
  assumes "faults w = True # fs" "RoleChangedEventSchema L ev"
  shows "wf_eachMessage L e ''organization.role.changed'' (Json ev) w =
           (Inr (), logger_error ''Failed to handle RoleChanged event'' (w\<lparr>faults := fs\<rparr>))"
  using assms
  by (cases "data ev")
     (simp_all add: wf_eachMessage_def JSON_parse_def handleRoleChanged_def
        upsertMembership_def run_query_down catch_log_def RoleChangedEventSchema_def)

lemma entitlements_updated_store_down:
  assumes "faults w = True # fs" "EntitlementsUpdatedEventSchema L ev"
  shows "wf_eachMessage L e ''billing.entitlements.updated'' (Json ev) w =
           (Inr (), logger_error ''Failed to handle EntitlementsUpdated event''
              (w\<lparr>faults := fs\<rparr>))"
  using assms
  by (cases "data ev")
     (simp_all add: wf_eachMessage_def JSON_parse_def handleEntitlementsUpdated_def
        upsertEntitlements_def run_query_down catch_log_def EntitlementsUpdatedEventSchema_def)

lemma organization_deleted_store_down:
  assumes "faults w = True # fs" "OrganizationDeletedEventSchema L ev"
  shows "wf_eachMessage L e ''organization.deleted'' (Json ev) w =
           (Inr (), logger_error ''Failed to handle OrganizationDeleted event''
              (w\<lparr>faults := fs\<rparr>))"
  using assms
  by (cases "data ev")
     (simp_all add: wf_eachMessage_def JSON_parse_def handleOrganizationDeleted_def
        project_findByOrganization_def run_query_down catch_log_def
        OrganizationDeletedEventSchema_def)

lemma audit_store_down:
  assumes "faults wa = True # fsa"
  shows "audit_eachMessage L e (Json ev) wa =
           (Inr (), logger_error ''Failed to process event'' (wa\<lparr>faults := fsa\<rparr>))"
  using assms
  by (simp add: audit_eachMessage_def JSON_parse_def recordEvent_def audit_findByEventId_def
      run_query_down catch_log_def)

lemma audit_first_query_fails_tables:
  assumes "faults wa = True # fsa"
  shows "tables (snd (audit_eachMessage L e p wa)) = tables wa"
  using assms
  by (cases p)
     (simp_all add: audit_eachMessage_def JSON_parse_def recordEvent_def
        audit_findByEventId_def run_query_down catch_log_def logger_error_def)

lemma audit_findByEventId_none:
  assumes "faults wa = False # fsa" "fst (audit_findByEventId L i wa) = Inr None"
  shows "audit_findByEventId L i wa = (Inr None, wa\<lparr>faults := fsa\<rparr>)"
  using assms
  by (auto simp: audit_findByEventId_def run_query_served split: if_splits list.splits sum.splits)

lemma audit_insert_rejected:
  assumes "faults wa = False # True # fsa"
    "fst (audit_findByEventId L (eventId ev) wa) = Inr None"
  shows "audit_eachMessage L e (Json ev) wa =
           (Inr (), logger_error ''Failed to process event'' (wa\<lparr>faults := fsa\<rparr>))"
proof -
  have f: "audit_findByEventId L (eventId ev) wa = (Inr None, wa\<lparr>faults := True # fsa\<rparr>)"
    using audit_findByEventId_none [OF assms] .
  have d: "faults (wa\<lparr>faults := True # fsa\<rparr>) = True # fsa" by simp
  show ?thesis
    using f
    by (simp add: audit_eachMessage_def JSON_parse_def recordEvent_def parseEventType_def
        Let_def audit_create_def run_query_down [OF d] catch_log_def)
qed

text \<open>
  Claim C7, as the code has it. When the store rejects a statement during the handling
  of an event, that statement has no effect, the error is caught and logged and
  \<open>eachMessage\<close> resolves, so the runner acknowledges the message: its offset is
  committed and the bus does not deliver it again. This holds for every message of the
  workflow and of the audit consumer, under every fault schedule. What stays applied:
  \<^item> when the rejected statement is the first one of the handling, no table changes;
    the workflow handlers of \<open>MemberAdded\<close>, \<open>MemberRemoved\<close>, \<open>RoleChanged\<close> and
    \<open>EntitlementsUpdated\<close> send one statement only, and each of the five workflow
    handlers then leaves its own error line and nothing else;
  \<^item> in the workflow handler of \<open>OrganizationDeleted\<close>, when the listing and the next
    \<open>k\<close> statements are served and the one after them is rejected, the \<open>k\<close> projects
    archived before it stay archived and nothing else changes;
  \<^item> in the audit consumer a rejected look-up, and a rejected INSERT after a look-up
    that found nothing, leave the tables as they were and the error line of
    \<open>eachMessage\<close>.
\<close>

theorem store_error_is_logged_and_acknowledged:
  "fst (wf_eachMessage L e topic p w) = Inr () \<and>
   fst (wf_run L [(e, topic, p)] w) = 1 \<and>
   fst (audit_eachMessage L e p wa) = Inr () \<and>
   fst (audit_run L [(e, p)] wa) = 1 \<and>
   (faults w = True # fs \<longrightarrow>
      tables (snd (wf_eachMessage L e topic p w)) = tables w \<and>
      (MemberAddedEventSchema L ev_added \<longrightarrow>
         wf_eachMessage L e ''organization.member.added'' (Json ev_added) w =
           (Inr (), logger_error ''Failed to handle MemberAdded event''
              (w\<lparr>faults := fs\<rparr>))) \<and>
      (MemberRemovedEventSchema L ev_removed \<longrightarrow>
         wf_eachMessage L e ''organization.member.removed'' (Json ev_removed) w =
           (Inr (), logger_error ''Failed to handle MemberRemoved event''
              (w\<lparr>faults := fs\<rparr>))) \<and>
      (RoleChangedEventSchema L ev_role \<longrightarrow>
         wf_eachMessage L e ''organization.role.changed'' (Json ev_role) w =
           (Inr (), logger_error ''Failed to handle RoleChanged event''
              (w\<lparr>faults := fs\<rparr>))) \<and>
      (EntitlementsUpdatedEventSchema L ev_ent \<longrightarrow>
         wf_eachMessage L e ''billing.entitlements.updated'' (Json ev_ent) w =
           (Inr (), logger_error ''Failed to handle EntitlementsUpdated event''
              (w\<lparr>faults := fs\<rparr>))) \<and>
      (OrganizationDeletedEventSchema L ev_del \<longrightarrow>
         wf_eachMessage L e ''organization.deleted'' (Json ev_del) w =
           (Inr (), logger_error ''Failed to handle OrganizationDeleted event''
              (w\<lparr>faults := fs\<rparr>)))) \<and>
   (OrganizationDeletedEventSchema L ev_del \<and>
    data ev_del = OrganizationDeletedData T actor tm \<and> pg_valid L T \<and>
    project_ids_stored L wd \<and> faults wd = False # replicate k False @ True # fd \<and>
    k \<le> length (found_projects (canon L T) wd) \<longrightarrow>
      wf_eachMessage L e ''organization.deleted'' (Json ev_del) wd =
        (Inr (), logger_error ''Failed to handle OrganizationDeleted event''
           (wd\<lparr>faults := fd, tables := (tables wd)\<lparr>projects :=
              archived_ids (clock e) (map pr_id (take k (found_projects (canon L T) wd)))
                (projects (tables wd))\<rparr>\<rparr>))) \<and>
   (faults wa = True # fsa \<longrightarrow>
      tables (snd (audit_eachMessage L e p wa)) = tables wa \<and>
      audit_eachMessage L e (Json ev) wa =
        (Inr (), logger_error ''Failed to process event'' (wa\<lparr>faults := fsa\<rparr>))) \<and>
   (faults wi = False # True # fsi \<and>
    fst (audit_findByEventId L (eventId ev) wi) = Inr None \<longrightarrow>
      audit_eachMessage L e (Json ev) wi =
        (Inr (), logger_error ''Failed to process event'' (wi\<lparr>faults := fsi\<rparr>)))"
proof -
  have r: "fst (wf_eachMessage L e topic p w) = Inr ()"
    "fst (wf_run L [(e, topic, p)] w) = 1"
    "fst (audit_eachMessage L e p wa) = Inr ()"
    "fst (audit_run L [(e, p)] wa) = 1"
    by (simp_all add: wf_eachMessage_resolves audit_eachMessage_resolves wf_run_all
        audit_run_all)
  have a: "faults w = True # fs \<longrightarrow>
      tables (snd (wf_eachMessage L e topic p w)) = tables w \<and>
      (MemberAddedEventSchema L ev_added \<longrightarrow>
         wf_eachMessage L e ''organization.member.added'' (Json ev_added) w =
           (Inr (), logger_error ''Failed to handle MemberAdded event''
              (w\<lparr>faults := fs\<rparr>))) \<and>
      (MemberRemovedEventSchema L ev_removed \<longrightarrow>
         wf_eachMessage L e ''organization.member.removed'' (Json ev_removed) w =
           (Inr (), logger_error ''Failed to handle MemberRemoved event''
              (w\<lparr>faults := fs\<rparr>))) \<and>
      (RoleChangedEventSchema L ev_role \<longrightarrow>
         wf_eachMessage L e ''organization.role.changed'' (Json ev_role) w =
           (Inr (), logger_error ''Failed to handle RoleChanged event''
              (w\<lparr>faults := fs\<rparr>))) \<and>
      (EntitlementsUpdatedEventSchema L ev_ent \<longrightarrow>
         wf_eachMessage L e ''billing.entitlements.updated'' (Json ev_ent) w =
           (Inr (), logger_error ''Failed to handle EntitlementsUpdated event''
              (w\<lparr>faults := fs\<rparr>))) \<and>
      (OrganizationDeletedEventSchema L ev_del \<longrightarrow>
         wf_eachMessage L e ''organization.deleted'' (Json ev_del) w =
           (Inr (), logger_error ''Failed to handle OrganizationDeleted event''
              (w\<lparr>faults := fs\<rparr>)))"
    using wf_first_query_fails_tables [of w fs L e topic p]
      member_added_store_down [of w fs L ev_added e]
      member_removed_store_down [of w fs L ev_removed e]
      role_changed_store_down [of w fs L ev_role e]
      entitlements_updated_store_down [of w fs L ev_ent e]
      organization_deleted_store_down [of w fs L ev_del e]
    by blast
  have b: "OrganizationDeletedEventSchema L ev_del \<and>
    data ev_del = OrganizationDeletedData T actor tm \<and> pg_valid L T \<and>
    project_ids_stored L wd \<and> faults wd = False # replicate k False @ True # fd \<and>
    k \<le> length (found_projects (canon L T) wd) \<longrightarrow>
      wf_eachMessage L e ''organization.deleted'' (Json ev_del) wd =
        (Inr (), logger_error ''Failed to handle OrganizationDeleted event''
           (wd\<lparr>faults := fd, tables := (tables wd)\<lparr>projects :=
              archived_ids (clock e) (map pr_id (take k (found_projects (canon L T) wd)))
                (projects (tables wd))\<rparr>\<rparr>))"
    using organization_deleted_step_fails [of L ev_del T actor tm wd k fd e] by blast
  have c: "faults wa = True # fsa \<longrightarrow>
      tables (snd (audit_eachMessage L e p wa)) = tables wa \<and>
      audit_eachMessage L e (Json ev) wa =
        (Inr (), logger_error ''Failed to process event'' (wa\<lparr>faults := fsa\<rparr>))"
    using audit_first_query_fails_tables [of wa fsa L e p] audit_store_down [of wa fsa L e ev]
    by blast
  have d: "faults wi = False # True # fsi \<and>
    fst (audit_findByEventId L (eventId ev) wi) = Inr None \<longrightarrow>
      audit_eachMessage L e (Json ev) wi =
        (Inr (), logger_error ''Failed to process event'' (wi\<lparr>faults := fsi\<rparr>))"
    using audit_insert_rejected [of wi fsi L ev e] by blast
  show ?thesis using r a b c d by blast
qed

lemma ex_role_changed_valid: "RoleChangedEventSchema ex_lib ex_role_changed"
  by (simp add: RoleChangedEventSchema_def BaseEventSchema_def opt_uuid_def
      ex_role_changed_def ex_event_def ex_lib_def ex_T_def ex_U_def ex_V_def ex_E1_def
      ex_C1_def ex_time_def)

lemma ex_entitlements_updated_valid:
  "EntitlementsUpdatedEventSchema ex_lib ex_entitlements_updated"
  by (simp add: EntitlementsUpdatedEventSchema_def BaseEventSchema_def opt_uuid_def
      ex_entitlements_updated_def ex_event_def ex_lib_def ex_T_def ex_U_def ex_V_def ex_E1_def
      ex_C1_def ex_time_def)

theorem store_error_is_logged_and_acknowledged_witness:
  "faults ex_wf_store_down = True # [] \<and>
   MemberAddedEventSchema ex_lib ex_member_added \<and>
   MemberRemovedEventSchema ex_lib ex_member_removed \<and>
   RoleChangedEventSchema ex_lib ex_role_changed \<and>
   EntitlementsUpdatedEventSchema ex_lib ex_entitlements_updated \<and>
   OrganizationDeletedEventSchema ex_lib ex_organization_deleted \<and>
   data ex_organization_deleted = OrganizationDeletedData ex_T ex_V ex_time \<and>
   pg_valid ex_lib ex_T \<and> project_ids_stored ex_lib ex_wf_tenant_third_query_fails \<and>
   faults ex_wf_tenant_third_query_fails = False # replicate 1 False @ True # [] \<and>
   1 \<le> length (found_projects (canon ex_lib ex_T) ex_wf_tenant_third_query_fails) \<and>
   faults ex_audit_store_down = True # [] \<and>
   faults ex_audit_insert_fails = False # True # [] \<and>
   fst (audit_findByEventId ex_lib (eventId ex_member_added) ex_audit_insert_fails) =
     Inr None \<and>
   fst (wf_eachMessage ex_lib ex_env ''organization.member.added'' (Json ex_member_added)
     ex_wf_store_down) = Inr () \<and>
   fst (wf_run ex_lib [(ex_env, ''organization.member.added'', Json ex_member_added)]
     ex_wf_store_down) = 1 \<and>
   fst (audit_eachMessage ex_lib ex_env (Json ex_member_added) ex_audit_store_down) =
     Inr () \<and>
   fst (audit_run ex_lib [(ex_env, Json ex_member_added)] ex_audit_store_down) = 1 \<and>
   tables (snd (wf_eachMessage ex_lib ex_env ''organization.member.added''
     (Json ex_member_added) ex_wf_store_down)) = tables ex_wf_store_down \<and>
   wf_eachMessage ex_lib ex_env ''organization.member.added'' (Json ex_member_added)
     ex_wf_store_down =
     (Inr (), logger_error ''Failed to handle MemberAdded event''
        (ex_wf_store_down\<lparr>faults := []\<rparr>)) \<and>
   wf_eachMessage ex_lib ex_env ''organization.member.removed'' (Json ex_member_removed)
     ex_wf_store_down =
     (Inr (), logger_error ''Failed to handle MemberRemoved event''
        (ex_wf_store_down\<lparr>faults := []\<rparr>)) \<and>
   wf_eachMessage ex_lib ex_env ''organization.role.changed'' (Json ex_role_changed)
     ex_wf_store_down =
     (Inr (), logger_error ''Failed to handle RoleChanged event''
        (ex_wf_store_down\<lparr>faults := []\<rparr>)) \<and>
   wf_eachMessage ex_lib ex_env ''billing.entitlements.updated''
     (Json ex_entitlements_updated) ex_wf_store_down =
     (Inr (), logger_error ''Failed to handle EntitlementsUpdated event''
        (ex_wf_store_down\<lparr>faults := []\<rparr>)) \<and>
   wf_eachMessage ex_lib ex_env ''organization.deleted'' (Json ex_organization_deleted)
     ex_wf_store_down =
     (Inr (), logger_error ''Failed to handle OrganizationDeleted event''
        (ex_wf_store_down\<lparr>faults := []\<rparr>)) \<and>
   wf_eachMessage ex_lib ex_env ''organization.deleted'' (Json ex_organization_deleted)
     ex_wf_tenant_third_query_fails =
     (Inr (), logger_error ''Failed to handle OrganizationDeleted event''
        (ex_wf_tenant_third_query_fails
           \<lparr>faults := [], tables := (tables ex_wf_tenant_third_query_fails)\<lparr>projects :=
              archived_ids (clock ex_env)
                (map pr_id (take 1
                   (found_projects (canon ex_lib ex_T) ex_wf_tenant_third_query_fails)))
                (projects (tables ex_wf_tenant_third_query_fails))\<rparr>\<rparr>)) \<and>
   tables (snd (audit_eachMessage ex_lib ex_env (Json ex_member_added) ex_audit_store_down)) =
     tables ex_audit_store_down \<and>
   audit_eachMessage ex_lib ex_env (Json ex_member_added) ex_audit_store_down =
     (Inr (), logger_error ''Failed to process event'' (ex_audit_store_down\<lparr>faults := []\<rparr>)) \<and>
   audit_eachMessage ex_lib ex_env (Json ex_member_added) ex_audit_insert_fails =
     (Inr (), logger_error ''Failed to process event''
        (ex_audit_insert_fails\<lparr>faults := []\<rparr>))"
proof -
  have f: "faults ex_wf_store_down = True # []"
    "faults ex_wf_tenant_third_query_fails = False # replicate 1 False @ True # []"
    "faults ex_audit_store_down = True # []"
    "faults ex_audit_insert_fails = False # True # []"
    by (simp_all add: ex_wf_store_down_def ex_wf_tenant_third_query_fails_def
        ex_audit_store_down_def ex_audit_insert_fails_def)
  have k: "1 \<le> length (found_projects (canon ex_lib ex_T) ex_wf_tenant_third_query_fails)"
    by (simp add: ex_found_projects ex_ids_canon)
  have n: "fst (audit_findByEventId ex_lib (eventId ex_member_added) ex_audit_insert_fails) =
             Inr None"
    using ex_ids_canon
    by (simp add: audit_findByEventId_def run_query_def pool_query_def
        ex_audit_insert_fails_def ex_audit_empty_def ex_member_added_def ex_event_def)
  note h = f k n ex_member_added_valid ex_member_removed_valid ex_role_changed_valid
    ex_entitlements_updated_valid ex_organization_deleted_valid ex_organization_deleted_data
    ex_ids_canon(1) ex_tenant_ids_stored(2)
  show ?thesis
    using store_error_is_logged_and_acknowledged [where L = ex_lib and e = ex_env and
        topic = "''organization.member.added''" and p = "Json ex_member_added" and
        w = ex_wf_store_down and fs = "[]" and ev_added = ex_member_added and
        ev_removed = ex_member_removed and ev_role = ex_role_changed and
        ev_ent = ex_entitlements_updated and ev_del = ex_organization_deleted and
        T = ex_T and actor = ex_V and tm = ex_time and wd = ex_wf_tenant_third_query_fails and
        k = 1 and fd = "[]" and wa = ex_audit_store_down and fsa = "[]" and
        ev = ex_member_added and wi = ex_audit_insert_fails and fsi = "[]"] h
    by blast
qed

text \<open>
  The claim as stated (the event is not marked processed and the bus redelivers it) fails
  when the store is down for the one query of a \<open>MemberAdded\<close> event: the runner
  acknowledges the message although the membership cache is still empty; only an error
  line remains.
\<close>

theorem store_error_acknowledged_counterexample:
  "wf_run ex_lib [(ex_env, ''organization.member.added'', Json ex_member_added)]
     ex_wf_store_down =
     (1, ex_wf_empty\<lparr>logs := [(Err, ''Failed to handle MemberAdded event'')]\<rparr>)"
  by (simp add: wf_run_def wf_eachMessage_def JSON_parse_def
      catch_log_def logger_error_def logger_info_def handleMemberAdded_def
      MemberAddedEventSchema_def BaseEventSchema_def opt_uuid_def ex_member_added_def
      ex_event_def ex_lib_def ex_T_def ex_U_def ex_V_def ex_E1_def ex_C1_def ex_time_def
      ex_env_def ex_wf_store_down_def ex_wf_empty_def upsertMembership_def run_query_def
      pool_query_def)

section \<open>Removal of a member that is not cached\<close>

lemma member_removed_absent_tables:
  assumes "MemberRemovedEventSchema L ev" "data ev = MemberRemovedData T U actor tm"
    "cached_membership L T U w = None"
  shows "tables (snd (wf_eachMessage L e ''organization.member.removed'' (Json ev) w)) =
           tables w"
proof (cases "pg_valid L T \<and> pg_valid L U")
  case True
  then have "filter (mc_matches (canon L T) (canon L U)) (membership_cache (tables w)) = []"
    using assms(3) by (simp add: cached_membership_def split: list.splits)
  then have "filter (\<lambda>r. \<not> mc_matches (canon L T) (canon L U) r) (membership_cache (tables w)) =
          membership_cache (tables w)"
    by (simp add: filter_empty_conv)
  then show ?thesis using assms(1,2)
    by (auto simp: wf_eachMessage_def JSON_parse_def handleMemberRemoved_def
          deleteMembership_def run_query_def pool_query_def catch_log_def logger_info_def
          logger_error_def split: list.splits)
next
  case False
  then show ?thesis using assms(1,2)
    by (auto simp: wf_eachMessage_def JSON_parse_def handleMemberRemoved_def
          deleteMembership_def run_query_def pool_query_def catch_log_def logger_info_def
          logger_error_def split: list.splits)
qed

text \<open>
  Claim C9, as the code has it. Handling a valid \<open>MemberRemoved\<close> event for \<open>(T, U)\<close>
  when the membership cache has no row for \<open>(T, U)\<close> (no row holds the two ids as the
  database reads them) creates no row and changes no table, under every fault
  schedule, raises no error to the dispatch loop, and the runner acknowledges the
  message. The workflow store has no ledger of processed events: nothing in it records
  the event.
\<close>

theorem member_removed_absent_changes_nothing:
  assumes "MemberRemovedEventSchema L ev" "data ev = MemberRemovedData T U actor tm"
    "cached_membership L T U w = None"
  shows "tables (snd (wf_eachMessage L e ''organization.member.removed'' (Json ev) w)) =
           tables w \<and>
         published (snd (wf_eachMessage L e ''organization.member.removed'' (Json ev) w)) =
           published w \<and>
         fst (wf_eachMessage L e ''organization.member.removed'' (Json ev) w) = Inr () \<and>
         fst (wf_run L [(e, ''organization.member.removed'', Json ev)] w) = 1"
  using member_removed_absent_tables [OF assms]
  by (simp add: wf_eachMessage_resolves wf_eachMessage_published wf_run_all)

lemma ex_member_removed_data:
  "data ex_member_removed = MemberRemovedData ex_T ex_U ex_V ex_time"
  by (simp add: ex_member_removed_def ex_event_def)

theorem member_removed_absent_changes_nothing_witness:
  "MemberRemovedEventSchema ex_lib ex_member_removed \<and>
   data ex_member_removed = MemberRemovedData ex_T ex_U ex_V ex_time \<and>
   cached_membership ex_lib ex_T ex_U ex_wf_other_member = None \<and>
   tables (snd (wf_eachMessage ex_lib ex_env ''organization.member.removed''
     (Json ex_member_removed) ex_wf_other_member)) = tables ex_wf_other_member \<and>
   published (snd (wf_eachMessage ex_lib ex_env ''organization.member.removed''
     (Json ex_member_removed) ex_wf_other_member)) = published ex_wf_other_member \<and>
   fst (wf_eachMessage ex_lib ex_env ''organization.member.removed''
     (Json ex_member_removed) ex_wf_other_member) = Inr () \<and>
   fst (wf_run ex_lib [(ex_env, ''organization.member.removed'', Json ex_member_removed)]
     ex_wf_other_member) = 1"
proof -
  have n: "cached_membership ex_lib ex_T ex_U ex_wf_other_member = None"
    using ex_ids_canon ex_ids_distinct
    by (simp add: cached_membership_def ex_wf_other_member_def ex_wf_empty_def mc_matches_def)
  show ?thesis
    using member_removed_absent_changes_nothing [OF ex_member_removed_valid
        ex_member_removed_data n, of ex_env]
      ex_member_removed_valid ex_member_removed_data n
    by simp
qed

text \<open>
  The claim as stated (the ledger records the event as processed) fails on the example:
  after the event was handled the store is what it was, and the only trace is a log
  line.
\<close>

theorem member_removed_no_ledger_counterexample:
  "wf_run ex_lib [(ex_env, ''organization.member.removed'', Json ex_member_removed)]
     ex_wf_other_member =
     (1, ex_wf_other_member\<lparr>logs := [(Info, ''Membership removed from cache'')]\<rparr>)"
  by (simp add: wf_run_def wf_eachMessage_def JSON_parse_def
      catch_log_def logger_error_def logger_info_def handleMemberRemoved_def
      MemberRemovedEventSchema_def BaseEventSchema_def opt_uuid_def ex_member_removed_def
      ex_event_def ex_lib_def ex_T_def ex_U_def ex_V_def ex_E1_def ex_C1_def ex_time_def
      ex_env_def ex_wf_other_member_def ex_wf_empty_def deleteMembership_def run_query_def
      pool_query_def pg_valid_def canon_def mc_matches_def)

section \<open>Supplementary facts\<close>

text \<open>
  Without cached entitlements neither creation limit applies, whatever the counts are
  (see \<open>createProject_up\<close> and \<open>createTask_up\<close>).
\<close>

lemma no_entitlements_limits_open:
  "cached_entitlements org w = None \<Longrightarrow> project_limit_open org w \<and> task_limit_open org w"
  by (simp add: project_limit_open_def task_limit_open_def)

text \<open>
  The audit consumer looks the event id up before it inserts. A look-up that finds a
  row ends the handling, whether \<open>mapRowToAuditLog\<close> maps the row or throws on it.
\<close>

lemma recordEvent_known:
  assumes "list_ex (\<lambda>r. al_eventId r = canon L (eventId ev)) (audit_logs (tables w))"
  shows "tables (snd (recordEvent L e ev w)) = tables w"
proof -
  obtain q w1 where q: "run_query (pg_valid L (eventId ev)) w = (q, w1)"
    by (cases "run_query (pg_valid L (eventId ev)) w")
  have t: "tables w1 = tables w"
    using run_query_frame [of "pg_valid L (eventId ev)" w] q by simp
  have "filter (\<lambda>r. al_eventId r = canon L (eventId ev)) (audit_logs (tables w1)) \<noteq> []"
    using assms t by (simp add: filter_nil_list_ex)
  then obtain r rs where
    "filter (\<lambda>r. al_eventId r = canon L (eventId ev)) (audit_logs (tables w1)) = r # rs"
    by (cases "filter (\<lambda>r. al_eventId r = canon L (eventId ev)) (audit_logs (tables w1))") auto
  then show ?thesis using q t
    by (cases q; cases "mapRowToAuditLog r")
       (simp_all add: recordEvent_def audit_findByEventId_def logger_info_def)
qed

lemma recordEvent_new:
  assumes "faults w = []"
    "\<not> list_ex (\<lambda>r. al_eventId r = canon L (eventId ev)) (audit_logs (tables w))"
  shows "if audit_insertable L ev (parse_action (toLowerCase (eventType ev)))
            (parse_resourceType (toLowerCase (eventType ev))) None (audit_logs (tables w))
         then list_ex (\<lambda>r. al_eventId r = canon L (eventId ev))
                (audit_logs (tables (snd (recordEvent L e ev w)))) \<and>
              length (audit_logs (tables (snd (recordEvent L e ev w)))) =
                Suc (length (audit_logs (tables w)))
         else recordEvent L e ev w = (Inl DatabaseError, w)"
proof -
  have "filter (\<lambda>r. al_eventId r = canon L (eventId ev)) (audit_logs (tables w)) = []"
    using assms(2) by (simp add: filter_nil_list_ex)
  then show ?thesis using assms
    by (auto simp: recordEvent_def audit_findByEventId_def audit_create_def run_query_up
        parseEventType_def Let_def audit_insertable_def mapRowToAuditLog_def logger_info_def)
qed

text \<open>
  On an available store a second \<open>recordEvent\<close> of the same event leaves \<open>audit_logs\<close>
  as the first one left it: the first one inserts at most one row for the event id, and
  the look-up of the second one finds it.
\<close>

lemma recordEvent_twice_same_tables:
  assumes "faults w = []"
  shows "tables (snd (recordEvent L e2 ev (snd (recordEvent L e1 ev w)))) =
           tables (snd (recordEvent L e1 ev w))"
proof (cases "list_ex (\<lambda>r. al_eventId r = canon L (eventId ev)) (audit_logs (tables w))")
  case True
  have 1: "tables (snd (recordEvent L e1 ev w)) = tables w"
    by (rule recordEvent_known [OF True])
  have "list_ex (\<lambda>r. al_eventId r = canon L (eventId ev))
          (audit_logs (tables (snd (recordEvent L e1 ev w))))"
    using True 1 by simp
  from recordEvent_known [OF this] show ?thesis .
next
  case False
  show ?thesis
  proof (cases "audit_insertable L ev (parse_action (toLowerCase (eventType ev)))
            (parse_resourceType (toLowerCase (eventType ev))) None (audit_logs (tables w))")
    case True
    from recordEvent_new [OF assms False, of e1] True
    have "list_ex (\<lambda>r. al_eventId r = canon L (eventId ev))
            (audit_logs (tables (snd (recordEvent L e1 ev w))))"
      by simp
    from recordEvent_known [OF this] show ?thesis .
  next
    case no: False
    have "recordEvent L e1 ev w = (Inl DatabaseError, w)"
      "recordEvent L e2 ev w = (Inl DatabaseError, w)"
      using recordEvent_new [OF assms False, of e1] recordEvent_new [OF assms False, of e2] no
      by simp_all
    then show ?thesis by simp
  qed
qed

end
